theory Spec2Isabelle
  imports Complex_Main
begin

section \<open>JavaScript values, callbacks and the object heap\<close>

text \<open>
  The library is a small class hierarchy of mutable objects (\<open>Spook\<close>, \<open>LatchSpook\<close>,
  \<open>SpookCache\<close>) that call user-supplied functions. The embedding keeps the objects in a
  heap addressed by natural numbers, passes the whole world through every method, and
  returns thrown exceptions as values together with the world at the moment of the throw
  (JavaScript keeps every mutation made before a throw).

  Values of the host language are taken abstractly: \<open>undefined\<close> and \<open>null\<close>, which the
  code tests for, are constructors; every other value is a \<open>Val\<close> of a type parameter.
\<close>

datatype 'a jsval = Undefined | Null | Val 'a

text \<open>
  \<open>JSON.stringify\<close> is a builtin of the host. Its result on \<open>undefined\<close> is
  \<open>undefined\<close> (no string) and on \<open>null\<close> the text \<open>null\<close>; on the other values it is
  the parameter \<open>ser\<close>, which need not be injective and may give no string (functions).
\<close>

definition JSON_stringify :: "('a \<Rightarrow> string option) \<Rightarrow> 'a jsval \<Rightarrow> string option" where
  "JSON_stringify ser v = (case v of Undefined \<Rightarrow> None | Null \<Rightarrow> Some ''null'' | Val a \<Rightarrow> ser a)"

text \<open>\<open>function equivalent (a, b) { return JSON.stringify(a) === JSON.stringify(b); }\<close>\<close>

definition equivalent :: "('a \<Rightarrow> string option) \<Rightarrow> 'a jsval \<Rightarrow> 'a jsval \<Rightarrow> bool" where
  "equivalent ser a b = (JSON_stringify ser a = JSON_stringify ser b)"

text \<open>
  A user function is named by a number and has a body: the calls it makes on cells, in
  order. A function with the empty body only observes. The closures the library itself
  creates are separate constructors: the \<open>_poll\<close> of a latch, the \<open>cleanupCallback\<close> of
  \<open>done\<close> (with the slot of its captured variable \<open>id\<close>) and the
  \<open>value => done(index, value)\<close> of the promise bridge.
\<close>

datatype 'a action =
    ATrigger nat "'a jsval"
  | AChanged nat "'a jsval"
  | AReset nat
  | AUse nat
  | ADrop nat

datatype 'a callback =
    Fn nat "'a action list"
  | LatchPoll nat
  | DoneCleanup nat nat "'a callback"
  | PromiseDone nat nat

datatype 'a arg = AVal "'a jsval" | ASym nat

datatype 'a event =
    Called nat "'a arg list"
  | ConsoleError string
  | ConsoleWarn string
  | PostMessage string string
  | HookInitialise nat
  | HookFinalise nat

datatype error = UsageUnderflow | DoneUnsupported | TypeError

datatype klass = Spook_class | LatchSpook_class | User_class

text \<open>
  The fields of a \<open>Spook\<close> object, with those a \<open>LatchSpook\<close> adds. The two observer
  objects are keyed by fresh symbols, and \<open>Object.getOwnPropertySymbols\<close> lists them in
  insertion order: association lists. \<open>defaultTo\<close> is \<open>Undefined\<close> while the property
  is absent. \<open>isDone\<close> is the method found on the object; the class \<open>Spook\<close> defines one
  that returns \<open>false\<close>.
\<close>

record 'a spook =
  subscribers :: "(nat \<times> 'a callback) list"
  thens :: "'a callback list"
  notifies :: "(nat \<times> 'a callback) list"
  ready :: bool
  val :: "'a jsval"
  triggering :: "'a jsval option"
  mayBeNull :: bool
  users :: nat
  uuid :: "string option"
  stringify :: "('a jsval \<Rightarrow> string) option"
  parse :: "(string \<Rightarrow> 'a jsval) option"
  noCache :: bool
  defaultTo :: "'a jsval"
  isDone :: "('a jsval \<Rightarrow> bool) option"
  klass :: klass
  targetSpook :: "nat option"
  poll :: bool
  notifyId :: "nat option"

record 'a reg =
  owned :: bool
  deferred :: bool
  reg_users :: "nat list"
  primary :: "nat option"
  reg_stringify :: "('a jsval \<Rightarrow> string) option"
  reg_parse :: "(string \<Rightarrow> 'a jsval) option"

record 'a SpookCache =
  deferParentPrefix :: "string option"
  regs :: "string \<rightharpoonup> 'a reg"
  sessionId :: string
  storage :: "string \<rightharpoonup> string"

datatype 'a reason = Reason "'a jsval" | Exception error

datatype 'a settle = Pending | Resolved "'a jsval list" | Rejected "'a reason"

datatype 'a item = ISpook nat | IPromise nat | IPlain "'a jsval"

record 'a bridge =
  finished :: nat
  resolved :: "'a jsval list"
  settled :: "'a settle"

record 'a world =
  heap :: "nat \<rightharpoonup> 'a spook"
  cache :: "'a SpookCache option"
  symbols :: nat
  id_vars :: "nat \<rightharpoonup> nat"
  next_var :: nat
  next_promise :: nat
  promises :: "nat \<rightharpoonup> 'a bridge"
  future_handlers :: "(nat \<times> nat \<times> nat) list"
  globalCount :: nat
  json :: "'a \<Rightarrow> string option"
  log :: "'a event list"

datatype ('r, 'a) outcome = Ok 'r "'a world" | Threw error "'a world" | OutOfFuel


text \<open>
  Every method returns either nothing (\<open>Ok None\<close>) or a freshly made symbol
  (\<open>Ok (Some i)\<close>, from \<open>tie\<close> and \<open>notify\<close>).
\<close>

type_synonym 'a res = "(nat option, 'a) outcome"

definition bind :: "'a res \<Rightarrow> (nat option \<Rightarrow> 'a world \<Rightarrow> 'a res) \<Rightarrow> 'a res" where
  "bind m k = (case m of Ok r w \<Rightarrow> k r w | Threw e w \<Rightarrow> Threw e w | OutOfFuel \<Rightarrow> OutOfFuel)"

text \<open>\<open>Array.prototype.forEach\<close> over the elements present when the loop starts.\<close>

fun forEach :: "('x \<Rightarrow> 'a world \<Rightarrow> 'a res) \<Rightarrow> 'x list \<Rightarrow> 'a world \<Rightarrow> 'a res" where
  "forEach f [] w = Ok None w"
| "forEach f (x # xs) w = bind (f x w) (\<lambda>_ w'. forEach f xs w')"

definition emit :: "'a event \<Rightarrow> 'a world \<Rightarrow> 'a world" where
  "emit e w = w\<lparr>log := log w @ [e]\<rparr>"

text \<open>A method called on an address that holds no object is the host's TypeError.\<close>

definition with_this :: "nat \<Rightarrow> 'a world \<Rightarrow> ('a spook \<Rightarrow> 'a res) \<Rightarrow> 'a res" where
  "with_this a w k = (case heap w a of None \<Rightarrow> Threw TypeError w | Some c \<Rightarrow> k c)"

definition upd :: "nat \<Rightarrow> ('a spook \<Rightarrow> 'a spook) \<Rightarrow> 'a world \<Rightarrow> 'a world" where
  "upd a f w = (case heap w a of None \<Rightarrow> w | Some c \<Rightarrow> w\<lparr>heap := (heap w)(a \<mapsto> f c)\<rparr>)"

definition symbolValues :: "(nat \<times> 'c) list \<Rightarrow> 'c list" where
  "symbolValues obj = map snd obj"

definition delete_key :: "nat \<Rightarrow> (nat \<times> 'c) list \<Rightarrow> (nat \<times> 'c) list" where
  "delete_key k obj = filter (\<lambda>p. fst p \<noteq> k) obj"

text \<open>Truthiness of a string-or-null: \<open>null\<close>, \<open>undefined\<close> and the empty string are falsy.\<close>

definition truthy :: "string option \<Rightarrow> bool" where
  "truthy s = (case s of None \<Rightarrow> False | Some x \<Rightarrow> x \<noteq> [])"

definition startsWith :: "string \<Rightarrow> string \<Rightarrow> bool" where
  "startsWith s p = (take (length p) s = p)"

section \<open>The shared cache's registrations and storage\<close>

definition upd_cache :: "('a SpookCache \<Rightarrow> 'a SpookCache) \<Rightarrow> 'a world \<Rightarrow> 'a world" where
  "upd_cache f w = (case cache w of None \<Rightarrow> w | Some ch \<Rightarrow> w\<lparr>cache := Some (f ch)\<rparr>)"

definition set_reg :: "string \<Rightarrow> 'a reg \<Rightarrow> 'a world \<Rightarrow> 'a world" where
  "set_reg u r w = upd_cache (\<lambda>ch. ch\<lparr>regs := (regs ch)(u \<mapsto> r)\<rparr>) w"

definition upd_reg :: "string \<Rightarrow> ('a reg \<Rightarrow> 'a reg) \<Rightarrow> 'a world \<Rightarrow> 'a world" where
  "upd_reg u f w = upd_cache (\<lambda>ch. case regs ch u of None \<Rightarrow> ch
                                  | Some r \<Rightarrow> ch\<lparr>regs := (regs ch)(u \<mapsto> f r)\<rparr>) w"

definition delete_reg :: "string \<Rightarrow> 'a world \<Rightarrow> 'a world" where
  "delete_reg u w = upd_cache (\<lambda>ch. ch\<lparr>regs := (regs ch)(u := None)\<rparr>) w"

definition storage_set :: "string \<Rightarrow> string \<Rightarrow> 'a world \<Rightarrow> 'a world" where
  "storage_set k v w = upd_cache (\<lambda>ch. ch\<lparr>storage := (storage ch)(k \<mapsto> v)\<rparr>) w"

definition storage_delete :: "string \<Rightarrow> 'a world \<Rightarrow> 'a world" where
  "storage_delete k w = upd_cache (\<lambda>ch. ch\<lparr>storage := (storage ch)(k := None)\<rparr>) w"

text \<open>The two storage keys of a UUID, as the cache builds them.\<close>

definition value_key :: "string \<Rightarrow> string" where
  "value_key u = ''$_Spooks.'' @ u"

definition owner_key :: "string \<Rightarrow> string" where
  "owner_key u = ''$_Spooks^'' @ u"

section \<open>The promise bridge's bookkeeping\<close>

definition promise_resolve :: "'a jsval list \<Rightarrow> 'a bridge \<Rightarrow> 'a bridge" where
  "promise_resolve vs b = (if settled b = Pending then b\<lparr>settled := Resolved vs\<rparr> else b)"

definition promise_reject :: "'a reason \<Rightarrow> 'a bridge \<Rightarrow> 'a bridge" where
  "promise_reject e b = (if settled b = Pending then b\<lparr>settled := Rejected e\<rparr> else b)"

text \<open>
  The local function \<open>done\<close> of \<open>Spook.promise\<close>: store the value, count it, and
  resolve when the count reaches the length.
\<close>

definition promise_done :: "nat \<Rightarrow> nat \<Rightarrow> 'a jsval \<Rightarrow> 'a world \<Rightarrow> 'a world" where
  "promise_done p index v w =
     (case promises w p of
        None \<Rightarrow> w
      | Some b \<Rightarrow>
          let b1 = b\<lparr>resolved := (resolved b)[index := v], finished := finished b + 1\<rparr> in
          w\<lparr>promises := (promises w)(p \<mapsto>
               (if finished b1 = length (resolved b1) then promise_resolve (resolved b1) b1 else b1))\<rparr>)"

definition first_arg :: "'a arg list \<Rightarrow> 'a jsval" where
  "first_arg args = (case args of AVal v # _ \<Rightarrow> v | _ \<Rightarrow> Undefined)"

section \<open>Method calls\<close>

text \<open>
  The methods call each other and the user's functions call the methods, so the whole
  library is one recursion. Each method is written once, as in the source, over a
  parameter \<open>rec\<close> that performs a nested method call; \<open>run\<close> below closes the
  recursion with a call budget, and a run that exhausts the budget is \<open>OutOfFuel\<close>,
  which is neither a result nor an exception.
\<close>

datatype 'a op =
    Trigger nat "'a jsval"
  | Reset nat
  | Changed nat "'a jsval"
  | DefaultTo nat "'a jsval"
  | Use nat
  | Drop nat
  | Initialise nat
  | Finalise nat
  | Notify nat "'a callback"
  | Unnotify nat "nat option"
  | Tie nat "'a callback"
  | Untie nat "nat option"
  | Then nat "'a callback"
  | Done nat "'a callback"
  | Call "'a callback" "'a arg list"
  | Exec "'a action"
  | Promise "'a item list"
  | CacheInitialise string nat "('a jsval \<Rightarrow> string) option" "(string \<Rightarrow> 'a jsval) option"
  | CacheChanged string "'a jsval"
  | CacheFinalise string nat
  | CacheEnsureActive string string

type_synonym 'a rec = "'a op \<Rightarrow> 'a world \<Rightarrow> 'a res"

subsection \<open>Spook\<close>

text \<open>
  \<open>trigger (newValue = this._value)\<close>: an \<open>undefined\<close> argument takes the default, the
  current value. The observer objects are listed when their loop starts; each
  subscriber and each one-shot is passed \<open>this._value\<close> as it is at that call.
\<close>

definition Spook_trigger :: "'a rec \<Rightarrow> nat \<Rightarrow> 'a jsval \<Rightarrow> 'a world \<Rightarrow> 'a res" where
  "Spook_trigger rec this v w =
     with_this this w (\<lambda>c.
       let newValue = (if v = Undefined then val c else v) in
       if newValue = Undefined then
         Ok None (emit (ConsoleError ''Trigger called with undefined value'') w)
       else if triggering c \<noteq> None then
         Ok None (emit (ConsoleError ''Trigger cannot be called while already triggering.'') w)
       else
         bind
           (let w1 = upd this (\<lambda>c. c\<lparr>triggering := Some newValue\<rparr>) w in
            if \<not> mayBeNull c \<and> newValue = Null then rec (Reset this) w1
            else
              bind (forEach (\<lambda>cb. rec (Call cb []))
                      (symbolValues (notifies c))
                      (upd this (\<lambda>c. c\<lparr>ready := True, val := newValue\<rparr>) w1)) (\<lambda>_ w2.
              with_this this w2 (\<lambda>c2.
              bind (forEach (\<lambda>cb w'. with_this this w' (\<lambda>c'. rec (Call cb [AVal (val c')]) w'))
                      (symbolValues (subscribers c2)) w2) (\<lambda>_ w3.
              with_this this w3 (\<lambda>c3.
              bind (forEach (\<lambda>cb w'. with_this this w' (\<lambda>c'.
                              bind (rec (Call cb [AVal (val c')]) w') (\<lambda>_ w''. rec (Drop this) w'')))
                      (thens c3) w3) (\<lambda>_ w4.
              Ok None (upd this (\<lambda>c. c\<lparr>thens := []\<rparr>) w4)))))))
           (\<lambda>_ w5.
              let w6 = upd this (\<lambda>c. c\<lparr>triggering := None\<rparr>) w5 in
              with_this this w6 (\<lambda>c6.
                if truthy (uuid c6) \<and> \<not> noCache c6 \<and> cache w6 \<noteq> None
                then rec (CacheChanged (case uuid c6 of Some u \<Rightarrow> u | None \<Rightarrow> []) newValue) w6
                else Ok None w6)))"

definition Spook_reset :: "'a rec \<Rightarrow> nat \<Rightarrow> 'a world \<Rightarrow> 'a res" where
  "Spook_reset rec this w =
     with_this this w (\<lambda>c.
       if defaultTo c \<noteq> Undefined then rec (Trigger this (defaultTo c)) w
       else if ready c then
         forEach (\<lambda>cb. rec (Call cb [])) (symbolValues (notifies c))
           (upd this (\<lambda>c. c\<lparr>ready := False, val := Null\<rparr>) w)
       else Ok None w)"

definition Spook_changed :: "'a rec \<Rightarrow> nat \<Rightarrow> 'a jsval \<Rightarrow> 'a world \<Rightarrow> 'a res" where
  "Spook_changed rec this newValue w =
     (if newValue = Undefined then Ok None w
      else with_this this w (\<lambda>c.
        if \<not> mayBeNull c \<and> newValue = Null then rec (Reset this) w
        else if \<not> ready c \<or> \<not> equivalent (json w) newValue (val c)
        then rec (Trigger this newValue) w
        else Ok None w))"

definition Spook_defaultTo :: "'a rec \<Rightarrow> nat \<Rightarrow> 'a jsval \<Rightarrow> 'a world \<Rightarrow> 'a res" where
  "Spook_defaultTo rec this v w =
     with_this this w (\<lambda>c.
       let w1 = upd this (\<lambda>c. c\<lparr>defaultTo := v\<rparr>) w in
       if \<not> ready c then rec (Trigger this v) w1 else Ok None w1)"

definition Spook_use :: "'a rec \<Rightarrow> nat \<Rightarrow> 'a world \<Rightarrow> 'a res" where
  "Spook_use rec this w =
     with_this this w (\<lambda>c.
       bind (if users c = 0 then
               (if \<not> truthy (uuid c) \<or> noCache c \<or> cache w = None then rec (Initialise this) w
                else rec (CacheInitialise (case uuid c of Some u \<Rightarrow> u | None \<Rightarrow> []) this
                            (stringify c) (parse c)) w)
             else Ok None w)
         (\<lambda>_ w1. Ok None (upd this (\<lambda>c. c\<lparr>users := users c + 1\<rparr>) w1)))"

definition Spook_drop :: "'a rec \<Rightarrow> nat \<Rightarrow> 'a world \<Rightarrow> 'a res" where
  "Spook_drop rec this w =
     with_this this w (\<lambda>c.
       if users c = 0 then Threw UsageUnderflow w
       else
         let w1 = upd this (\<lambda>c. c\<lparr>users := users c - 1\<rparr>) w in
         if users c - 1 = 0 then
           (if \<not> truthy (uuid c) \<or> noCache c \<or> cache w1 = None then rec (Finalise this) w1
            else rec (CacheFinalise (case uuid c of Some u \<Rightarrow> u | None \<Rightarrow> []) this) w1)
         else Ok None w1)"

definition Spook_notify :: "'a rec \<Rightarrow> nat \<Rightarrow> 'a callback \<Rightarrow> 'a world \<Rightarrow> 'a res" where
  "Spook_notify rec this callback w =
     bind (rec (Use this) w) (\<lambda>_ w1.
       let ident = symbols w1;
           w2 = upd this (\<lambda>c. c\<lparr>notifies := notifies c @ [(ident, callback)]\<rparr>)
                  (w1\<lparr>symbols := ident + 1\<rparr>)
       in with_this this w2 (\<lambda>c.
            if ready c then bind (rec (Call callback []) w2) (\<lambda>_ w3. Ok (Some ident) w3)
            else Ok (Some ident) w2))"

definition Spook_unnotify :: "'a rec \<Rightarrow> nat \<Rightarrow> nat option \<Rightarrow> 'a world \<Rightarrow> 'a res" where
  "Spook_unnotify rec this ident w =
     with_this this w (\<lambda>c.
       case ident of
         None \<Rightarrow> Ok None (emit (ConsoleWarn ''untie on from old or non-existent notifyee ID'') w)
       | Some i \<Rightarrow>
           if map_of (notifies c) i \<noteq> None then
             rec (Drop this) (upd this (\<lambda>c. c\<lparr>notifies := delete_key i (notifies c)\<rparr>) w)
           else Ok None (emit (ConsoleWarn ''untie on from old or non-existent notifyee ID'') w))"

definition Spook_tie :: "'a rec \<Rightarrow> nat \<Rightarrow> 'a callback \<Rightarrow> 'a world \<Rightarrow> 'a res" where
  "Spook_tie rec this callback w =
     bind (rec (Use this) w) (\<lambda>_ w1.
       let ident = symbols w1;
           w2 = upd this (\<lambda>c. c\<lparr>subscribers := subscribers c @ [(ident, callback)]\<rparr>)
                  (w1\<lparr>symbols := ident + 1\<rparr>)
       in with_this this w2 (\<lambda>c.
            if ready c
            then bind (rec (Call callback [AVal (val c), ASym ident]) w2) (\<lambda>_ w3. Ok (Some ident) w3)
            else Ok (Some ident) w2))"

definition Spook_untie :: "'a rec \<Rightarrow> nat \<Rightarrow> nat option \<Rightarrow> 'a world \<Rightarrow> 'a res" where
  "Spook_untie rec this ident w =
     with_this this w (\<lambda>c.
       case ident of
         None \<Rightarrow> Ok None (emit (ConsoleWarn ''untie on from old or non-existent subscriber ID'') w)
       | Some i \<Rightarrow>
           if map_of (subscribers c) i \<noteq> None then
             rec (Drop this) (upd this (\<lambda>c. c\<lparr>subscribers := delete_key i (subscribers c)\<rparr>) w)
           else Ok None (emit (ConsoleWarn ''untie on from old or non-existent subscriber ID'') w))"

definition Spook_then :: "'a rec \<Rightarrow> nat \<Rightarrow> 'a callback \<Rightarrow> 'a world \<Rightarrow> 'a res" where
  "Spook_then rec this callback w =
     bind (rec (Use this) w) (\<lambda>_ w1.
       with_this this w1 (\<lambda>c.
         if ready c then
           bind (rec (Call callback [AVal (val c)]) w1) (\<lambda>_ w2. rec (Drop this) w2)
         else Ok None (upd this (\<lambda>c. c\<lparr>thens := thens c @ [callback]\<rparr>) w1)))"

text \<open>
  \<open>done\<close> declares \<open>var id\<close>, builds \<open>cleanupCallback\<close>, which captures the variable, and
  assigns \<open>id = this.tie(cleanupCallback)\<close>: the variable is \<open>undefined\<close> until \<open>tie\<close>
  has returned.
\<close>

definition Spook_done :: "'a rec \<Rightarrow> nat \<Rightarrow> 'a callback \<Rightarrow> 'a world \<Rightarrow> 'a res" where
  "Spook_done rec this callback w =
     with_this this w (\<lambda>c.
       case isDone c of
         None \<Rightarrow> Threw DoneUnsupported w
       | Some _ \<Rightarrow>
           let var = next_var w; w1 = w\<lparr>next_var := var + 1\<rparr> in
           bind (rec (Tie this (DoneCleanup this var callback)) w1) (\<lambda>ident w2.
             Ok None (case ident of
                        None \<Rightarrow> w2
                      | Some i \<Rightarrow> w2\<lparr>id_vars := (id_vars w2)(var \<mapsto> i)\<rparr>)))"

definition cleanupCallback :: "'a rec \<Rightarrow> nat \<Rightarrow> nat \<Rightarrow> 'a callback \<Rightarrow> 'a arg list \<Rightarrow> 'a world \<Rightarrow> 'a res" where
  "cleanupCallback rec this var callback args w =
     with_this this w (\<lambda>c.
       case isDone c of
         None \<Rightarrow> Threw TypeError w
       | Some p \<Rightarrow>
           if p (first_arg args) then
             bind (rec (Call callback [AVal (first_arg args)]) w) (\<lambda>_ w1.
             rec (Untie this (id_vars w1 var)) w1)
           else Ok None w)"

subsection \<open>LatchSpook\<close>

definition LatchSpook_poll :: "'a rec \<Rightarrow> nat \<Rightarrow> 'a world \<Rightarrow> 'a res" where
  "LatchSpook_poll rec that w =
     with_this that w (\<lambda>l.
       case targetSpook l of
         None \<Rightarrow> Ok None (emit (ConsoleWarn ''poll called when targetSpook is not set. This cannot happen.'') w)
       | Some t \<Rightarrow>
           with_this t w (\<lambda>tc.
             if ready tc then
               bind (rec (Changed that (val tc)) w) (\<lambda>_ w1.
               with_this that w1 (\<lambda>l1.
               bind (case notifyId l1 of
                       None \<Rightarrow> Ok None w1
                     | Some i \<Rightarrow>
                         (case targetSpook l1 of
                            None \<Rightarrow> Threw TypeError w1
                          | Some t1 \<Rightarrow>
                              bind (rec (Unnotify t1 (Some i)) w1) (\<lambda>_ w2.
                              Ok None (upd that (\<lambda>l. l\<lparr>targetSpook := None\<rparr>) w2))))
                 (\<lambda>_ w3. Ok None (upd that (\<lambda>l. l\<lparr>poll := False\<rparr>) w3))))
             else Ok None w))"

definition LatchSpook_initialise :: "'a rec \<Rightarrow> nat \<Rightarrow> 'a world \<Rightarrow> 'a res" where
  "LatchSpook_initialise rec this w =
     with_this this w (\<lambda>c.
       if poll c then
         (case targetSpook c of
            None \<Rightarrow> Threw TypeError w
          | Some t \<Rightarrow>
              bind (rec (Notify t (LatchPoll this)) w) (\<lambda>nid w1.
              with_this this w1 (\<lambda>c1.
                if poll c1 then
                  rec (Call (LatchPoll this) []) (upd this (\<lambda>c. c\<lparr>notifyId := nid\<rparr>) w1)
                else
                  (case targetSpook c1 of
                     None \<Rightarrow> Threw TypeError w1
                   | Some t1 \<Rightarrow>
                       bind (rec (Unnotify t1 nid) w1) (\<lambda>_ w2.
                       Ok None (upd this (\<lambda>c. c\<lparr>targetSpook := None\<rparr>) w2))))))
       else Ok None w)"

definition LatchSpook_finalise :: "'a rec \<Rightarrow> nat \<Rightarrow> 'a world \<Rightarrow> 'a res" where
  "LatchSpook_finalise rec this w =
     with_this this w (\<lambda>c.
       case targetSpook c of
         Some t \<Rightarrow> rec (Unnotify t (notifyId c)) w
       | None \<Rightarrow> Ok None w)"

subsection \<open>The two hooks, by class\<close>

text \<open>
  \<open>Spook\<close> has empty hooks and \<open>LatchSpook\<close> the ones above. A subclass written by the
  user has hooks of its own; all the library sees of them is that they are called.
\<close>

definition initialise :: "'a rec \<Rightarrow> nat \<Rightarrow> 'a world \<Rightarrow> 'a res" where
  "initialise rec this w =
     with_this this w (\<lambda>c.
       case klass c of
         Spook_class \<Rightarrow> Ok None w
       | User_class \<Rightarrow> Ok None (emit (HookInitialise this) w)
       | LatchSpook_class \<Rightarrow> LatchSpook_initialise rec this w)"

definition finalise :: "'a rec \<Rightarrow> nat \<Rightarrow> 'a world \<Rightarrow> 'a res" where
  "finalise rec this w =
     with_this this w (\<lambda>c.
       case klass c of
         Spook_class \<Rightarrow> Ok None w
       | User_class \<Rightarrow> Ok None (emit (HookFinalise this) w)
       | LatchSpook_class \<Rightarrow> LatchSpook_finalise rec this w)"

subsection \<open>Calling a function\<close>

definition exec :: "'a rec \<Rightarrow> 'a action \<Rightarrow> 'a world \<Rightarrow> 'a res" where
  "exec rec a w =
     (case a of
        ATrigger t v \<Rightarrow> rec (Trigger t v) w
      | AChanged t v \<Rightarrow> rec (Changed t v) w
      | AReset t \<Rightarrow> rec (Reset t) w
      | AUse t \<Rightarrow> rec (Use t) w
      | ADrop t \<Rightarrow> rec (Drop t) w)"

definition call :: "'a rec \<Rightarrow> 'a callback \<Rightarrow> 'a arg list \<Rightarrow> 'a world \<Rightarrow> 'a res" where
  "call rec cb args w =
     (case cb of
        Fn k body \<Rightarrow> forEach (\<lambda>a. rec (Exec a)) body (emit (Called k args) w)
      | LatchPoll that \<Rightarrow> LatchSpook_poll rec that w
      | DoneCleanup this var callback \<Rightarrow> cleanupCallback rec this var callback args w
      | PromiseDone p index \<Rightarrow> Ok None (promise_done p index (first_arg args) w))"

subsection \<open>SpookCache\<close>

definition SpookCache_initialise ::
  "'a rec \<Rightarrow> string \<Rightarrow> nat \<Rightarrow> ('a jsval \<Rightarrow> string) option \<Rightarrow> (string \<Rightarrow> 'a jsval) option \<Rightarrow> 'a world \<Rightarrow> 'a res" where
  "SpookCache_initialise rec u spook sfy prs w =
     (case cache w of
        None \<Rightarrow> Threw TypeError w
      | Some ch \<Rightarrow>
          (case regs ch u of
             None \<Rightarrow>
               let w1 = set_reg u \<lparr>owned = False, deferred = False, reg_users = [spook],
                                  primary = None, reg_stringify = sfy, reg_parse = prs\<rparr> w
               in bind (case storage ch (value_key u) of
                          None \<Rightarrow> Ok None w1
                        | Some s \<Rightarrow>
                            (case prs of
                               None \<Rightarrow> Threw TypeError w1
                             | Some p \<Rightarrow> rec (Changed spook (p s)) w1))
                    (\<lambda>_ w2. rec (CacheEnsureActive u (owner_key u)) w2)
           | Some item \<Rightarrow>
               if primary item = Some spook then
                 Ok None (upd_reg u (\<lambda>i. i\<lparr>owned := True\<rparr>)
                          (if owned item
                           then emit (ConsoleError ''SpookCache.initialise: initialise called on already-active Spook.'') w
                           else w))
               else
                 let w1 = (if primary item = None \<and> \<not> deferred item
                           then emit (ConsoleError ''SpookCache.initialise: Registered Spook that has neither primary nor deferred.'') w
                           else w);
                     w2 = upd_reg u (\<lambda>i. i\<lparr>reg_users := reg_users i @ [spook]\<rparr>) w1;
                     equivSpook = (case primary item of
                                     Some p \<Rightarrow> p
                                   | None \<Rightarrow> (case reg_users item of [] \<Rightarrow> spook | x # _ \<Rightarrow> x))
                 in with_this equivSpook w2 (\<lambda>e.
                      if ready e then rec (Changed spook (val e)) w2 else Ok None w2)))"

definition SpookCache_changed :: "'a rec \<Rightarrow> string \<Rightarrow> 'a jsval \<Rightarrow> 'a world \<Rightarrow> 'a res" where
  "SpookCache_changed rec u v w =
     (case cache w of
        None \<Rightarrow> Threw TypeError w
      | Some ch \<Rightarrow>
          (case regs ch u of
             None \<Rightarrow> Ok None w
           | Some item \<Rightarrow>
               if storage ch (owner_key u) = Some (sessionId ch) then
                 (if v = Undefined then
                    forEach (\<lambda>s. rec (Reset s)) (reg_users item) (storage_delete (value_key u) w)
                  else
                    (case reg_stringify item of
                       None \<Rightarrow> Threw TypeError w
                     | Some f \<Rightarrow>
                         forEach (\<lambda>s. rec (Changed s v)) (reg_users item)
                           (storage_set (value_key u) (f v) w)))
               else Ok None w))"

text \<open>The source fixes \<open>let keepAround = true\<close>; its other branch is kept as written.\<close>

definition SpookCache_finalise :: "'a rec \<Rightarrow> string \<Rightarrow> nat \<Rightarrow> 'a world \<Rightarrow> 'a res" where
  "SpookCache_finalise rec u spook w =
     (case cache w of
        None \<Rightarrow> Threw TypeError w
      | Some ch \<Rightarrow>
          (case regs ch u of
             None \<Rightarrow> Ok None (emit (ConsoleError ''SpookCache.finalise: called for unregistered UUID'') w)
           | Some item \<Rightarrow>
               bind
                 (if primary item = Some spook then
                    (let keepAround = True in
                     if keepAround then Ok None (upd_reg u (\<lambda>i. i\<lparr>owned := False\<rparr>) w)
                     else
                       bind (rec (Finalise spook) w) (\<lambda>_ w1.
                         let w2 = upd_reg u (\<lambda>i. i\<lparr>primary := None\<rparr>) w1 in
                         if reg_users item = [] then
                           Ok None (if storage ch (owner_key u) = Some (sessionId ch)
                                    then storage_delete (owner_key u) w2 else w2)
                         else rec (CacheEnsureActive u (owner_key u)) w2))
                  else
                    let users' = filter (\<lambda>b. b \<noteq> spook) (reg_users item);
                        w1 = upd_reg u (\<lambda>i. i\<lparr>reg_users := users'\<rparr>) w
                    in if users' = [] \<and> deferred item then
                         Ok None (upd_reg u (\<lambda>i. i\<lparr>deferred := False\<rparr>)
                                    (emit (PostMessage ''dropSpook'' u) w1))
                       else Ok None w1)
                 (\<lambda>_ w3.
                    case cache w3 of
                      None \<Rightarrow> Threw TypeError w3
                    | Some ch3 \<Rightarrow>
                        (case regs ch3 u of
                           None \<Rightarrow> Ok None w3
                         | Some i3 \<Rightarrow>
                             if primary i3 = None \<and> \<not> deferred i3 \<and> reg_users i3 = []
                             then Ok None (delete_reg u w3) else Ok None w3))))"

definition SpookCache_ensureActive :: "'a rec \<Rightarrow> string \<Rightarrow> string \<Rightarrow> 'a world \<Rightarrow> 'a res" where
  "SpookCache_ensureActive rec u key w =
     (case cache w of
        None \<Rightarrow> Threw TypeError w
      | Some ch \<Rightarrow>
          bind
            (case regs ch u of
               None \<Rightarrow> Ok None w
             | Some item \<Rightarrow>
                 (case primary item of
                    None \<Rightarrow> Ok None w
                  | Some p \<Rightarrow>
                      if reg_users item \<noteq> [] \<and> \<not> owned item then
                        bind (rec (Finalise p) w) (\<lambda>_ w1.
                        Ok None (upd_reg u (\<lambda>i. i\<lparr>primary := None, owned := False\<rparr>) w1))
                      else Ok None w))
            (\<lambda>_ w1.
               case cache w1 of
                 None \<Rightarrow> Threw TypeError w1
               | Some ch1 \<Rightarrow>
                   (case regs ch1 u of
                      None \<Rightarrow> Ok None w1
                    | Some item \<Rightarrow>
                        if reg_users item \<noteq> [] \<and> primary item = None \<and> \<not> deferred item then
                          let w2 = (if owned item
                                    then emit (ConsoleError ''SpookCache.ensureActive: INCONSISTENT. Cannot have no primary but be owned.'') w1
                                    else w1)
                          in if truthy (deferParentPrefix ch1) \<and>
                                startsWith u (case deferParentPrefix ch1 of Some p \<Rightarrow> p | None \<Rightarrow> [])
                             then Ok None (emit (PostMessage ''useSpook'' u)
                                             (upd_reg u (\<lambda>i. i\<lparr>deferred := True\<rparr>) w2))
                             else
                               let w3 = (if \<not> truthy (storage ch1 key)
                                         then storage_set key (sessionId ch1) w2 else w2);
                                   owner = (if \<not> truthy (storage ch1 key)
                                            then Some (sessionId ch1) else storage ch1 key)
                               in if owner = Some (sessionId ch1) then
                                    rec (Initialise (last (reg_users item)))
                                      (upd_reg u (\<lambda>i. i\<lparr>primary := Some (last (reg_users item)),
                                                       reg_users := butlast (reg_users item),
                                                       owned := True\<rparr>) w3)
                                  else Ok None w3
                        else Ok None w1)))"

subsection \<open>The promise bridge\<close>

definition upd_promise :: "nat \<Rightarrow> ('a bridge \<Rightarrow> 'a bridge) \<Rightarrow> 'a world \<Rightarrow> 'a world" where
  "upd_promise p f w = (case promises w p of None \<Rightarrow> w | Some b \<Rightarrow> w\<lparr>promises := (promises w)(p \<mapsto> f b)\<rparr>)"

text \<open>
  \<open>Spook.promise\<close>: the executor runs at once. A cell is given a one-shot, a future is
  given the two handlers (they run when the host settles the future), a plain value is
  counted on the spot. An exception out of the executor rejects the promise.
\<close>

definition Spook_promise :: "'a rec \<Rightarrow> 'a item list \<Rightarrow> 'a world \<Rightarrow> 'a res" where
  "Spook_promise rec list w =
     (let p = next_promise w;
          w1 = w\<lparr>next_promise := p + 1,
                 promises := (promises w)(p \<mapsto>
                   \<lparr>finished = 0, resolved = replicate (length list) Undefined, settled = Pending\<rparr>)\<rparr>
      in case forEach (\<lambda>(unresolvedObject, index) w'.
                  case unresolvedObject of
                    ISpook a \<Rightarrow> rec (Then a (PromiseDone p index)) w'
                  | IPromise f \<Rightarrow> Ok None (w'\<lparr>future_handlers := future_handlers w' @ [(f, p, index)]\<rparr>)
                  | IPlain v \<Rightarrow> Ok None (promise_done p index v w'))
                (zip list [0..<length list]) w1 of
           Ok _ w2 \<Rightarrow> Ok (Some p) w2
         | Threw e w2 \<Rightarrow> Ok (Some p) (upd_promise p (promise_reject (Exception e)) w2)
         | OutOfFuel \<Rightarrow> OutOfFuel)"

text \<open>The host settles a future: its fulfilment handlers run, or its rejection handlers.\<close>

definition future_fulfilled :: "nat \<Rightarrow> 'a jsval \<Rightarrow> 'a world \<Rightarrow> 'a world" where
  "future_fulfilled f v w =
     fold (\<lambda>(g, p, index) w'. if g = f then promise_done p index v w' else w') (future_handlers w) w"

definition future_rejected :: "nat \<Rightarrow> 'a jsval \<Rightarrow> 'a world \<Rightarrow> 'a world" where
  "future_rejected f e w =
     fold (\<lambda>(g, p, index) w'. if g = f then upd_promise p (promise_reject (Reason e)) w' else w')
       (future_handlers w) w"

subsection \<open>Closing the recursion\<close>

primrec run :: "nat \<Rightarrow> 'a op \<Rightarrow> 'a world \<Rightarrow> 'a res" where
  "run 0 = (\<lambda>c w. OutOfFuel)"
| "run (Suc n) = (\<lambda>c w.
     case c of
       Trigger this v \<Rightarrow> Spook_trigger (run n) this v w
     | Reset this \<Rightarrow> Spook_reset (run n) this w
     | Changed this v \<Rightarrow> Spook_changed (run n) this v w
     | DefaultTo this v \<Rightarrow> Spook_defaultTo (run n) this v w
     | Use this \<Rightarrow> Spook_use (run n) this w
     | Drop this \<Rightarrow> Spook_drop (run n) this w
     | Initialise this \<Rightarrow> initialise (run n) this w
     | Finalise this \<Rightarrow> finalise (run n) this w
     | Notify this f \<Rightarrow> Spook_notify (run n) this f w
     | Unnotify this i \<Rightarrow> Spook_unnotify (run n) this i w
     | Tie this f \<Rightarrow> Spook_tie (run n) this f w
     | Untie this i \<Rightarrow> Spook_untie (run n) this i w
     | Then this f \<Rightarrow> Spook_then (run n) this f w
     | Done this f \<Rightarrow> Spook_done (run n) this f w
     | Call f args \<Rightarrow> call (run n) f args w
     | Exec a \<Rightarrow> exec (run n) a w
     | Promise list \<Rightarrow> Spook_promise (run n) list w
     | CacheInitialise u spook sfy prs \<Rightarrow> SpookCache_initialise (run n) u spook sfy prs w
     | CacheChanged u v \<Rightarrow> SpookCache_changed (run n) u v w
     | CacheFinalise u spook \<Rightarrow> SpookCache_finalise (run n) u spook w
     | CacheEnsureActive u key \<Rightarrow> SpookCache_ensureActive (run n) u key w)"

section \<open>Constructors\<close>

record 'a cacheConfig =
  cfg_id :: "string option"
  cfg_stringify :: "('a jsval \<Rightarrow> string) option"
  cfg_parse :: "(string \<Rightarrow> 'a jsval) option"

definition new_Spook :: "bool \<Rightarrow> 'a cacheConfig option \<Rightarrow> 'a world \<Rightarrow> nat \<times> 'a world" where
  "new_Spook mbn cfg w =
     (let a = globalCount w in
      (a, w\<lparr>globalCount := a + 1,
             heap := (heap w)(a \<mapsto>
               \<lparr>subscribers = [], thens = [], notifies = [], ready = False, val = Null,
                triggering = None, mayBeNull = mbn, users = 0,
                uuid = (case cfg of None \<Rightarrow> None | Some g \<Rightarrow> cfg_id g),
                stringify = (case cfg of None \<Rightarrow> None | Some g \<Rightarrow> cfg_stringify g),
                parse = (case cfg of None \<Rightarrow> None | Some g \<Rightarrow> cfg_parse g),
                noCache = False, defaultTo = Undefined, isDone = Some (\<lambda>_. False),
                klass = Spook_class, targetSpook = None, poll = False, notifyId = None\<rparr>)\<rparr>))"

text \<open>
  \<open>new LatchSpook(targetSpook, def, mayBeNull, cache)\<close>: \<open>mayBeNull\<close> defaults to the
  target's, and a default other than \<open>undefined\<close> makes the latch ready from the start.
\<close>

definition new_LatchSpook ::
  "nat \<Rightarrow> 'a jsval \<Rightarrow> bool option \<Rightarrow> 'a cacheConfig option \<Rightarrow> 'a world \<Rightarrow> (nat \<times> 'a world) option" where
  "new_LatchSpook target def mbn cfg w =
     (case heap w target of
        None \<Rightarrow> None
      | Some t \<Rightarrow>
          let (a, w1) = new_Spook (case mbn of None \<Rightarrow> mayBeNull t | Some b \<Rightarrow> b) cfg w in
          Some (a, upd a (\<lambda>c. c\<lparr>ready := (def \<noteq> Undefined),
                                 val := (if def \<noteq> Undefined then def else Null),
                                 klass := LatchSpook_class,
                                 targetSpook := Some target, poll := True\<rparr>) w1))"

text \<open>
  The session identifier of a cache:
  \<open>Math.floor((1 + Math.random()) * 0x100000000).toString(16).substr(1)\<close>,
  with the random draw \<open>r\<close> as a parameter.
\<close>

definition hex_digit :: "nat \<Rightarrow> char" where
  "hex_digit d = ''0123456789abcdef'' ! (d mod 16)"

function toString16 :: "nat \<Rightarrow> string" where
  "toString16 n = (if n < 16 then [hex_digit n] else toString16 (n div 16) @ [hex_digit (n mod 16)])"
  by pat_completeness auto
termination
  by (relation "measure id") auto

definition new_sessionId :: "real \<Rightarrow> string" where
  "new_sessionId r = drop 1 (toString16 (nat \<lfloor>(1 + r) * 4294967296\<rfloor>))"

definition new_SpookCache :: "(string \<rightharpoonup> string) \<Rightarrow> string option \<Rightarrow> real \<Rightarrow> 'a SpookCache" where
  "new_SpookCache backing prefix r =
     \<lparr>deferParentPrefix = prefix, regs = Map.empty, sessionId = new_sessionId r, storage = backing\<rparr>"

section \<open>Vocabulary of the statements\<close>

text \<open>
  \<open>use\<close>, \<open>drop\<close> and \<open>trigger\<close> go to the shared cache instead of the cell's own hooks
  under the same test: the cell has a UUID, \<open>_noCache\<close> is not set, and \<open>Spook.cache\<close>
  exists.
\<close>

definition effective_cache :: "'a spook \<Rightarrow> 'a world \<Rightarrow> bool" where
  "effective_cache c w = (truthy (uuid c) \<and> \<not> noCache c \<and> cache w \<noteq> None)"

text \<open>
  An observer is passive when it calls nothing back. It is reentrant-only for a cell
  when all it does is call \<open>trigger\<close> on that very cell (a passive observer is the case
  of no such call).
\<close>

definition passive_cb :: "'a callback \<Rightarrow> bool" where
  "passive_cb cb = (case cb of Fn k body \<Rightarrow> body = [] | _ \<Rightarrow> False)"

definition reentrant_only :: "nat \<Rightarrow> 'a callback \<Rightarrow> bool" where
  "reentrant_only this cb =
     (case cb of
        Fn k body \<Rightarrow> list_all (\<lambda>a. case a of ATrigger t x \<Rightarrow> t = this | _ \<Rightarrow> False) body
      | _ \<Rightarrow> False)"

definition rejected :: "'a event" where
  "rejected = ConsoleError ''Trigger cannot be called while already triggering.''"

text \<open>What one call of an observer leaves in the log: the call, then one refusal per reentrant trigger.\<close>

definition obs_log :: "'a arg list \<Rightarrow> 'a callback \<Rightarrow> 'a event list" where
  "obs_log args cb =
     (case cb of Fn k body \<Rightarrow> Called k args # replicate (length body) rejected | _ \<Rightarrow> [])"

definition called :: "'a arg list \<Rightarrow> 'a callback \<Rightarrow> 'a event" where
  "called args cb = (case cb of Fn k body \<Rightarrow> Called k args | _ \<Rightarrow> Called 0 args)"

text \<open>The three observer phases of a trigger, in the order of the log.\<close>

definition trigger_log :: "'a spook \<Rightarrow> 'a jsval \<Rightarrow> 'a event list" where
  "trigger_log c v =
     concat (map (obs_log []) (symbolValues (notifies c))) @
     concat (map (obs_log [AVal v]) (symbolValues (subscribers c))) @
     concat (map (obs_log [AVal v]) (thens c))"

text \<open>The finalisation path of \<open>drop\<close>, taken when the user count reaches zero.\<close>

definition finalisation :: "nat \<Rightarrow> nat \<Rightarrow> 'a spook \<Rightarrow> 'a world \<Rightarrow> 'a res" where
  "finalisation n this c w =
     (if effective_cache c w
      then run n (CacheFinalise (case uuid c of Some u \<Rightarrow> u | None \<Rightarrow> []) this) w
      else run n (Finalise this) w)"

text \<open>The initialisation path of \<open>use\<close>, taken when the user count is zero.\<close>

definition initialisation :: "nat \<Rightarrow> nat \<Rightarrow> 'a spook \<Rightarrow> 'a world \<Rightarrow> 'a res" where
  "initialisation n this c w =
     (if effective_cache c w
      then run n (CacheInitialise (case uuid c of Some u \<Rightarrow> u | None \<Rightarrow> []) this
                    (stringify c) (parse c)) w
      else run n (Initialise this) w)"

text \<open>Publication of a value to the shared cache, the last statement of \<open>trigger\<close>.\<close>

definition publish :: "nat \<Rightarrow> 'a spook \<Rightarrow> 'a jsval \<Rightarrow> 'a world \<Rightarrow> 'a res" where
  "publish n c v w =
     (if effective_cache c w
      then run n (CacheChanged (case uuid c of Some u \<Rightarrow> u | None \<Rightarrow> []) v) w
      else Ok None w)"

text \<open>
  The end of \<open>trigger\<close>, after the one-shots have been run and dropped: the queue is
  emptied, the sentinel cleared, the value published.
\<close>

definition after_trigger :: "nat \<Rightarrow> nat \<Rightarrow> 'a jsval \<Rightarrow> 'a world \<Rightarrow> 'a res" where
  "after_trigger n this v w =
     (let w6 = upd this (\<lambda>c. c\<lparr>thens := [], triggering := None\<rparr>) w in
      with_this this w6 (\<lambda>c6. publish n c6 v w6))"

text \<open>Several calls in sequence, and what is left of a finished run.\<close>

definition run_all :: "nat \<Rightarrow> 'a op list \<Rightarrow> 'a world \<Rightarrow> 'a res" where
  "run_all n ops w = forEach (run n) ops w"

definition final_world :: "'a res \<Rightarrow> 'a world option" where
  "final_world r = (case r of Ok x w \<Rightarrow> Some w | Threw e w \<Rightarrow> None | OutOfFuel \<Rightarrow> None)"

definition final_log :: "'a res \<Rightarrow> 'a event list" where
  "final_log r = (case r of Ok x w \<Rightarrow> log w | Threw e w \<Rightarrow> log w | OutOfFuel \<Rightarrow> [])"

definition final_cell :: "nat \<Rightarrow> 'a res \<Rightarrow> 'a spook option" where
  "final_cell a r = (case r of Ok x w \<Rightarrow> heap w a | Threw e w \<Rightarrow> heap w a | OutOfFuel \<Rightarrow> None)"

section \<open>Concrete worlds\<close>

text \<open>
  Values are natural numbers, serialised in unary. \<open>world0\<close> is the empty world without
  a cache; \<open>fresh\<close> is the object \<open>new Spook()\<close> makes.
\<close>

definition world0 :: "nat world" where
  "world0 = \<lparr>heap = Map.empty, cache = None, symbols = 0, id_vars = Map.empty, next_var = 0,
             next_promise = 0, promises = Map.empty, future_handlers = [], globalCount = 0,
             json = (\<lambda>n. Some (replicate n CHR ''1'')), log = []\<rparr>"

definition fresh :: "nat spook" where
  "fresh = \<lparr>subscribers = [], thens = [], notifies = [], ready = False, val = Null,
            triggering = None, mayBeNull = True, users = 0, uuid = None, stringify = None,
            parse = None, noCache = False, defaultTo = Undefined, isDone = Some (\<lambda>_. False),
            klass = Spook_class, targetSpook = None, poll = False, notifyId = None\<rparr>"

definition world_of :: "nat spook \<Rightarrow> nat world" where
  "world_of c = world0\<lparr>heap := [0 \<mapsto> c], globalCount := 1\<rparr>"

text \<open>A cell with one observer of each kind, in use three times.\<close>

definition observed :: "nat spook" where
  "observed = fresh\<lparr>notifies := [(0, Fn 1 [])], subscribers := [(1, Fn 2 [])],
                    thens := [Fn 3 []], users := 3\<rparr>"

text \<open>The same cell whose subscriber triggers the cell again from inside its call.\<close>

definition reentrant :: "nat spook" where
  "reentrant = fresh\<lparr>notifies := [(0, Fn 1 [])], subscribers := [(1, Fn 2 [ATrigger 0 (Val 9)])],
                     users := 2\<rparr>"

text \<open>A ready cell whose class says that every value is final.\<close>

definition done_cell :: "nat spook" where
  "done_cell = fresh\<lparr>ready := True, val := Val 1, isDone := Some (\<lambda>_. True)\<rparr>"

text \<open>
  A cell with a cache identity and the serialiser pair of the unary encoding, and a
  world with a newly made cache (random draw one half) over an empty store, or over a
  store in which an earlier session left the value 3 for the UUID.
\<close>

definition unary :: "nat jsval \<Rightarrow> string" where
  "unary v = (case v of Undefined \<Rightarrow> ''undefined'' | Null \<Rightarrow> ''null'' | Val n \<Rightarrow> replicate n CHR ''1'')"

definition of_unary :: "string \<Rightarrow> nat jsval" where
  "of_unary s = (if s = ''null'' then Null else Val (length s))"

definition identified :: "nat spook" where
  "identified = fresh\<lparr>uuid := Some ''u'', stringify := Some unary, parse := Some of_unary\<rparr>"

definition cached_world :: "(string \<rightharpoonup> string) \<Rightarrow> nat world" where
  "cached_world store = world0\<lparr>heap := [0 \<mapsto> identified], globalCount := 1,
                                cache := Some (new_SpookCache store None (1 / 2))\<rparr>"

definition returned :: "'a res \<Rightarrow> bool" where
  "returned r = (case r of Ok x w \<Rightarrow> True | Threw e w \<Rightarrow> False | OutOfFuel \<Rightarrow> False)"

definition final_storage :: "'a res \<Rightarrow> string \<Rightarrow> string option" where
  "final_storage r k =
     (case r of
        Ok x w \<Rightarrow> (case cache w of None \<Rightarrow> None | Some ch \<Rightarrow> storage ch k)
      | Threw e w \<Rightarrow> None
      | OutOfFuel \<Rightarrow> None)"

definition final_registered :: "'a res \<Rightarrow> string \<Rightarrow> bool" where
  "final_registered r u =
     (case r of
        Ok x w \<Rightarrow> (case cache w of None \<Rightarrow> False | Some ch \<Rightarrow> regs ch u \<noteq> None)
      | Threw e w \<Rightarrow> False
      | OutOfFuel \<Rightarrow> False)"

definition hex_chars :: "char set" where
  "hex_chars = set ''0123456789abcdef''"

text \<open>A world whose cache owns the UUID and has the cell as its primary.\<close>

definition owner_reg :: "nat reg" where
  "owner_reg = \<lparr>owned = True, deferred = False, reg_users = [], primary = Some 0,
                 reg_stringify = Some unary, reg_parse = Some of_unary\<rparr>"

definition owner_cache :: "nat SpookCache" where
  "owner_cache = (new_SpookCache [''$_Spooks^u'' \<mapsto> ''80000000''] None (1 / 2))
                   \<lparr>regs := [''u'' \<mapsto> owner_reg]\<rparr>"

definition owner_world :: "nat world" where
  "owner_world = world0\<lparr>heap := [0 \<mapsto> identified\<lparr>users := 1\<rparr>], globalCount := 1,
                        cache := Some owner_cache\<rparr>"






text \<open>
  The latch scenario. \<open>latch_world\<close>: an input cell 0, not ready, and
  \<open>new LatchSpook(input, 0)\<close> at address 1, not yet used. \<open>latched_world\<close>: the same after
  \<open>latch.tie(f)\<close>, where \<open>f\<close> is function 1: the latch is in use, its \<open>_poll\<close> is
  registered with the input under symbol 0, and \<open>f\<close> has been called with the default.
\<close>

definition latch0 :: "nat spook" where
  "latch0 = fresh\<lparr>ready := True, val := Val 0, klass := LatchSpook_class,
                  targetSpook := Some 0, poll := True\<rparr>"

definition latch_world :: "nat world" where
  "latch_world =
     (case new_LatchSpook 0 (Val 0) None None (world_of fresh) of
        Some (a, w) \<Rightarrow> w
      | None \<Rightarrow> world0)"

definition latch_input :: "nat spook" where
  "latch_input = fresh\<lparr>notifies := [(0, LatchPoll 1)], users := 1\<rparr>"

definition latch_used :: "nat spook" where
  "latch_used = latch0\<lparr>subscribers := [(1, Fn 1 [])], users := 1, notifyId := Some 0\<rparr>"

definition latched_world :: "nat world" where
  "latched_world = world0\<lparr>heap := [0 \<mapsto> latch_input, 1 \<mapsto> latch_used], globalCount := 2,
                          symbols := 2, log := [Called 1 [AVal (Val 0), ASym 1]]\<rparr>"

text \<open>
  A world in which the cell with UUID \<open>u\<close> is the registered primary of a cache that owns
  the UUID, and is not in use (what \<open>use\<close> and \<open>drop\<close> leave of \<open>cached_world\<close>); and a
  world with an unused latch with default 0 over an input that is ready with 7.
\<close>

definition cold_world :: "nat world" where
  "cold_world = world0\<lparr>heap := [0 \<mapsto> identified], globalCount := 1,
                       cache := Some ((new_SpookCache [''$_Spooks^u'' \<mapsto> ''80000000''] None (1 / 2))
                                        \<lparr>regs := [''u'' \<mapsto> owner_reg\<lparr>owned := False\<rparr>]\<rparr>)\<rparr>"

definition ready_latch_world :: "nat world" where
  "ready_latch_world =
     (case new_LatchSpook 0 (Val 0) None None (world_of (fresh\<lparr>ready := True, val := Val 7\<rparr>)) of
        Some (a, w) \<Rightarrow> w
      | None \<Rightarrow> world0)"

section \<open>Frames\<close>


text \<open>
  What \<open>drop\<close>, \<open>finalise\<close>, \<open>unnotify\<close> and \<open>Spook.cache.finalise\<close> can do to a world:
  lower user counts, remove notifiers, shrink registrations, and log events that are
  not calls of functions. Everything else stays.
\<close>

definition is_call :: "'a event \<Rightarrow> bool" where
  "is_call e = (case e of Called k args \<Rightarrow> True | _ \<Rightarrow> False)"

definition cell_le :: "'a spook \<Rightarrow> 'a spook \<Rightarrow> bool" where
  "cell_le c' c =
     (c'\<lparr>users := users c, notifies := notifies c\<rparr> = c \<and> set (notifies c') \<subseteq> set (notifies c))"

definition heap_le :: "(nat \<rightharpoonup> 'a spook) \<Rightarrow> (nat \<rightharpoonup> 'a spook) \<Rightarrow> bool" where
  "heap_le h' h = (\<forall>a. rel_option cell_le (h' a) (h a))"

definition reg_le :: "'a reg \<Rightarrow> 'a reg \<Rightarrow> bool" where
  "reg_le i' i = (set (reg_users i') \<subseteq> set (reg_users i) \<and> reg_stringify i' = reg_stringify i)"

definition regs_le :: "(string \<rightharpoonup> 'a reg) \<Rightarrow> (string \<rightharpoonup> 'a reg) \<Rightarrow> bool" where
  "regs_le r' r =
     (\<forall>u. case r' u of None \<Rightarrow> True
             | Some i' \<Rightarrow> (case r u of None \<Rightarrow> False | Some i \<Rightarrow> reg_le i' i))"

definition cache_le :: "'a SpookCache \<Rightarrow> 'a SpookCache \<Rightarrow> bool" where
  "cache_le ch' ch =
     (storage ch' = storage ch \<and> sessionId ch' = sessionId ch \<and> regs_le (regs ch') (regs ch))"

definition quiet_step :: "'a world \<Rightarrow> 'a world \<Rightarrow> bool" where
  "quiet_step w w' =
     (json w' = json w \<and> heap_le (heap w') (heap w) \<and>
      rel_option cache_le (cache w') (cache w) \<and>
      filter is_call (log w') = filter is_call (log w))"








section \<open>Auxiliary facts\<close>

lemma bind_simps [simp]:
  "bind (Ok r w) k = k r w"
  "bind (Threw e w) k = Threw e w"
  "bind OutOfFuel k = OutOfFuel"
  by (simp_all add: bind_def)

lemma with_this_Some [simp]: "heap w a = Some c \<Longrightarrow> with_this a w k = k c"
  by (simp add: with_this_def)

lemma with_this_None [simp]: "heap w a = None \<Longrightarrow> with_this a w k = Threw TypeError w"
  by (simp add: with_this_def)

lemma upd_Some: "heap w a = Some c \<Longrightarrow> upd a f w = w\<lparr>heap := (heap w)(a \<mapsto> f c)\<rparr>"
  by (simp add: upd_def)

lemma run_Suc:
  "run (Suc n) (Trigger this v) = Spook_trigger (run n) this v"
  "run (Suc n) (Reset this) = Spook_reset (run n) this"
  "run (Suc n) (Changed this v) = Spook_changed (run n) this v"
  "run (Suc n) (DefaultTo this v) = Spook_defaultTo (run n) this v"
  "run (Suc n) (Use this) = Spook_use (run n) this"
  "run (Suc n) (Drop this) = Spook_drop (run n) this"
  "run (Suc n) (Initialise this) = initialise (run n) this"
  "run (Suc n) (Finalise this) = finalise (run n) this"
  "run (Suc n) (Notify this f) = Spook_notify (run n) this f"
  "run (Suc n) (Unnotify this i) = Spook_unnotify (run n) this i"
  "run (Suc n) (Tie this f) = Spook_tie (run n) this f"
  "run (Suc n) (Untie this i) = Spook_untie (run n) this i"
  "run (Suc n) (Then this f) = Spook_then (run n) this f"
  "run (Suc n) (Done this f) = Spook_done (run n) this f"
  "run (Suc n) (Call f args) = call (run n) f args"
  "run (Suc n) (Exec a) = exec (run n) a"
  "run (Suc n) (Promise list) = Spook_promise (run n) list"
  "run (Suc n) (CacheInitialise u spook sfy prs) = SpookCache_initialise (run n) u spook sfy prs"
  "run (Suc n) (CacheChanged u v) = SpookCache_changed (run n) u v"
  "run (Suc n) (CacheFinalise u spook) = SpookCache_finalise (run n) u spook"
  "run (Suc n) (CacheEnsureActive u key) = SpookCache_ensureActive (run n) u key"
  by (simp_all add: fun_eq_iff)

declare run.simps(2) [simp del]

lemma exec_reentrant:
  assumes "heap w this = Some c" "triggering c \<noteq> None" "val c \<noteq> Undefined"
      and "list_all (\<lambda>a. case a of ATrigger t x \<Rightarrow> t = this | _ \<Rightarrow> False) body"
  shows "forEach (\<lambda>a. run (Suc (Suc n)) (Exec a)) body w =
           Ok None (w\<lparr>log := log w @ replicate (length body) rejected\<rparr>)"
  using assms
proof (induction body arbitrary: w)
  case Nil
  then show ?case by simp
next
  case (Cons a body)
  from Cons.prems(4) obtain x where a: "a = ATrigger this x"
    by (cases a) auto
  from Cons.prems(4) have rest: "list_all (\<lambda>a. case a of ATrigger t x \<Rightarrow> t = this | _ \<Rightarrow> False) body"
    by simp
  have step: "run (Suc (Suc n)) (Exec a) w = Ok None (emit rejected w)"
    using Cons.prems(1-3) by (simp add: run_Suc a exec_def Spook_trigger_def Let_def rejected_def)
  have h: "heap (emit rejected w) this = Some c"
    using Cons.prems(1) by (simp add: emit_def)
  have "forEach (\<lambda>a. run (Suc (Suc n)) (Exec a)) body (emit rejected w) =
          Ok None ((emit rejected w)\<lparr>log := log (emit rejected w) @ replicate (length body) rejected\<rparr>)"
    by (rule Cons.IH [OF h Cons.prems(2,3) rest])
  with step show ?case
    by (simp add: emit_def replicate_app_Cons_same)
qed

lemma call_reentrant:
  assumes "heap w this = Some c" "triggering c \<noteq> None" "val c \<noteq> Undefined"
      and "reentrant_only this cb"
  shows "run (Suc (Suc (Suc n))) (Call cb args) w = Ok None (w\<lparr>log := log w @ obs_log args cb\<rparr>)"
proof -
  from assms(4) obtain k body where cb: "cb = Fn k body"
    and body: "list_all (\<lambda>a. case a of ATrigger t x \<Rightarrow> t = this | _ \<Rightarrow> False) body"
    by (cases cb) (auto simp: reentrant_only_def)
  have h: "heap (emit (Called k args) w) this = Some c"
    using assms(1) by (simp add: emit_def)
  have "forEach (\<lambda>a. run (Suc (Suc n)) (Exec a)) body (emit (Called k args) w) =
          Ok None ((emit (Called k args) w)\<lparr>log := log (emit (Called k args) w) @ replicate (length body) rejected\<rparr>)"
    by (rule exec_reentrant [OF h assms(2,3) body])
  then show ?thesis
    by (simp add: run_Suc [of "Suc (Suc n)"] cb call_def obs_log_def emit_def)
qed

lemma notifiers_loop:
  assumes "heap w this = Some c" "triggering c \<noteq> None" "val c \<noteq> Undefined"
      and "list_all (reentrant_only this) cbs"
  shows "forEach (\<lambda>cb. run (Suc (Suc (Suc n))) (Call cb args)) cbs w =
           Ok None (w\<lparr>log := log w @ concat (map (obs_log args) cbs)\<rparr>)"
  using assms
proof (induction cbs arbitrary: w)
  case Nil
  then show ?case by simp
next
  case (Cons cb cbs)
  from Cons.prems(4) have hd: "reentrant_only this cb" and tl: "list_all (reentrant_only this) cbs"
    by simp_all
  have step: "run (Suc (Suc (Suc n))) (Call cb args) w = Ok None (w\<lparr>log := log w @ obs_log args cb\<rparr>)"
    by (rule call_reentrant [OF Cons.prems(1-3) hd])
  have h: "heap (w\<lparr>log := log w @ obs_log args cb\<rparr>) this = Some c"
    using Cons.prems(1) by simp
  have "forEach (\<lambda>cb. run (Suc (Suc (Suc n))) (Call cb args)) cbs (w\<lparr>log := log w @ obs_log args cb\<rparr>) =
          Ok None ((w\<lparr>log := log w @ obs_log args cb\<rparr>)\<lparr>log := log (w\<lparr>log := log w @ obs_log args cb\<rparr>) @ concat (map (obs_log args) cbs)\<rparr>)"
    by (rule Cons.IH [OF h Cons.prems(2,3) tl])
  with step show ?case
    by simp
qed

lemma subscribers_loop:
  assumes "heap w this = Some c" "triggering c \<noteq> None" "val c \<noteq> Undefined"
      and "list_all (reentrant_only this) cbs"
  shows "forEach (\<lambda>cb w'. with_this this w' (\<lambda>c'. run (Suc (Suc (Suc n))) (Call cb [AVal (val c')]) w')) cbs w =
           Ok None (w\<lparr>log := log w @ concat (map (obs_log [AVal (val c)]) cbs)\<rparr>)"
  using assms
proof (induction cbs arbitrary: w)
  case Nil
  then show ?case by simp
next
  case (Cons cb cbs)
  from Cons.prems(4) have hd: "reentrant_only this cb" and tl: "list_all (reentrant_only this) cbs"
    by simp_all
  have step: "run (Suc (Suc (Suc n))) (Call cb [AVal (val c)]) w = Ok None (w\<lparr>log := log w @ obs_log [AVal (val c)] cb\<rparr>)"
    by (rule call_reentrant [OF Cons.prems(1-3) hd])
  have h: "heap (w\<lparr>log := log w @ obs_log [AVal (val c)] cb\<rparr>) this = Some c"
    using Cons.prems(1) by simp
  have "forEach (\<lambda>cb w'. with_this this w' (\<lambda>c'. run (Suc (Suc (Suc n))) (Call cb [AVal (val c')]) w')) cbs (w\<lparr>log := log w @ obs_log [AVal (val c)] cb\<rparr>) =
          Ok None ((w\<lparr>log := log w @ obs_log [AVal (val c)] cb\<rparr>)\<lparr>log := log (w\<lparr>log := log w @ obs_log [AVal (val c)] cb\<rparr>) @ concat (map (obs_log [AVal (val c)]) cbs)\<rparr>)"
    by (rule Cons.IH [OF h Cons.prems(2,3) tl])
  with step show ?case
    using Cons.prems(1) by simp
qed

lemma effective_cache_frame [simp]:
  "effective_cache (c\<lparr>users := m\<rparr>) w = effective_cache c w"
  "effective_cache c (w\<lparr>log := l\<rparr>) = effective_cache c w"
  "effective_cache c (w\<lparr>heap := h\<rparr>) = effective_cache c w"
  by (simp_all add: effective_cache_def)

lemma forEach_Nil_fn [simp]: "forEach f [] = Ok None"
  by (simp add: fun_eq_iff)

lemma same_run: "wa = wb \<Longrightarrow> run m x wa = run m x wb"
  by simp

lemma same_cell: "ca = cb \<Longrightarrow> hp(a \<mapsto> ca) = hp(a \<mapsto> cb)"
  by simp

lemma thens_loop:
  assumes "heap w this = Some c" "triggering c \<noteq> None" "val c \<noteq> Undefined"
      and "list_all (reentrant_only this) cbs"
      and "length cbs \<le> users c"
  shows "forEach (\<lambda>cb w'. with_this this w' (\<lambda>c'.
            bind (run (Suc (Suc (Suc n))) (Call cb [AVal (val c')]) w')
                 (\<lambda>_ w''. run (Suc (Suc (Suc n))) (Drop this) w''))) cbs w =
           bind
             ((if cbs \<noteq> [] \<and> users c = length cbs
               then finalisation (Suc (Suc n)) this c
               else Ok None)
                (w\<lparr>heap := (heap w)(this \<mapsto> c\<lparr>users := users c - length cbs\<rparr>),
                   log := log w @ concat (map (obs_log [AVal (val c)]) cbs)\<rparr>))
             (\<lambda>_. Ok None)"
  using assms
proof (induction cbs arbitrary: w c)
  case Nil
  then show ?case by (simp add: fun_upd_idem)
next
  case (Cons cb cbs)
  let ?N = "Suc (Suc (Suc n))"
  let ?F = "\<lambda>cb w'. with_this this w' (\<lambda>c'.
            bind (run ?N (Call cb [AVal (val c')]) w') (\<lambda>_ w''. run ?N (Drop this) w''))"
  let ?w1 = "w\<lparr>log := log w @ obs_log [AVal (val c)] cb\<rparr>"
  let ?wfin = "w\<lparr>heap := (heap w)(this \<mapsto> c\<lparr>users := users c - length (cb # cbs)\<rparr>),
                 log := log w @ concat (map (obs_log [AVal (val c)]) (cb # cbs))\<rparr>"
  from Cons.prems(4) have hd: "reentrant_only this cb" and tl: "list_all (reentrant_only this) cbs"
    by simp_all
  have step: "run ?N (Call cb [AVal (val c)]) w = Ok None ?w1"
    by (rule call_reentrant [OF Cons.prems(1-3) hd])
  have h1: "heap ?w1 this = Some c"
    using Cons.prems(1) by simp
  have wt: "\<And>k. with_this this w k = k c"
    using Cons.prems(1) by simp
  have unroll: "forEach ?F (cb # cbs) w = bind (run ?N (Drop this) ?w1) (\<lambda>_. forEach ?F cbs)"
    by (simp add: wt step)
  show ?case
  proof (cases "users c = 1")
    case True
    with Cons.prems(5) have nil: "cbs = []" by simp
    let ?wa = "?w1\<lparr>heap := (heap ?w1)(this \<mapsto> c\<lparr>users := 0\<rparr>)\<rparr>"
    have drop: "run ?N (Drop this) ?w1 = finalisation (Suc (Suc n)) this c ?wa"
      using h1 True
      by (simp add: run_Suc [of "Suc (Suc n)"] Spook_drop_def upd_def Let_def finalisation_def
          effective_cache_def del: not_None_eq)
    have W: "?wa = ?wfin"
      by (auto intro!: world.equality same_cell spook.equality simp add: True nil)
    have cond: "(cb # cbs \<noteq> [] \<and> users c = length (cb # cbs)) = True"
      by (simp add: True nil)
    have "forEach ?F (cb # cbs) w =
            bind ((if cb # cbs \<noteq> [] \<and> users c = length (cb # cbs)
                   then finalisation (Suc (Suc n)) this c else Ok None) ?wfin) (\<lambda>_. Ok None)"
      unfolding unroll drop W cond by (simp add: nil)
    then show ?thesis .
  next
    case False
    with Cons.prems(5) have big: "1 < users c" by simp
    let ?c2 = "c\<lparr>users := users c - 1\<rparr>"
    let ?w2 = "?w1\<lparr>heap := (heap ?w1)(this \<mapsto> ?c2)\<rparr>"
    let ?wfin2 = "?w2\<lparr>heap := (heap ?w2)(this \<mapsto> ?c2\<lparr>users := users ?c2 - length cbs\<rparr>),
                      log := log ?w2 @ concat (map (obs_log [AVal (val ?c2)]) cbs)\<rparr>"
    have drop: "run ?N (Drop this) ?w1 = Ok None ?w2"
      using h1 big by (simp add: run_Suc Spook_drop_def upd_def Let_def)
    have h2: "heap ?w2 this = Some ?c2" by simp
    have p2: "triggering ?c2 \<noteq> None" "val ?c2 \<noteq> Undefined"
      using Cons.prems(2,3) by simp_all
    have p5: "length cbs \<le> users ?c2"
      using Cons.prems(5) by simp
    have ih: "forEach ?F cbs ?w2 =
           bind
             ((if cbs \<noteq> [] \<and> users ?c2 = length cbs
               then finalisation (Suc (Suc n)) this ?c2
               else Ok None) ?wfin2)
             (\<lambda>_. Ok None)"
      by (rule Cons.IH [OF h2 p2 tl p5])
    have f: "finalisation (Suc (Suc n)) this ?c2 = finalisation (Suc (Suc n)) this c"
      by (simp add: finalisation_def fun_eq_iff)
    have X: "(if cbs \<noteq> [] \<and> users ?c2 = length cbs
               then finalisation (Suc (Suc n)) this ?c2
               else Ok None) =
             (if cb # cbs \<noteq> [] \<and> users c = length (cb # cbs)
               then finalisation (Suc (Suc n)) this c
               else Ok None)"
      unfolding f using big by auto
    have W: "?wfin2 = ?wfin"
      by (auto intro!: world.equality same_cell spook.equality)
    have "forEach ?F (cb # cbs) w = forEach ?F cbs ?w2"
      unfolding unroll drop by simp
    then have "forEach ?F (cb # cbs) w =
            bind ((if cb # cbs \<noteq> [] \<and> users c = length (cb # cbs)
                   then finalisation (Suc (Suc n)) this c else Ok None) ?wfin) (\<lambda>_. Ok None)"
      unfolding ih X W .
    then show ?thesis .
  qed
qed

lemma upd_upd: "upd a f (upd a g w) = upd a (\<lambda>c. f (g c)) w"
  by (simp add: upd_def split: option.splits)

lemma bind_assoc: "bind (bind m k1) k2 = bind m (\<lambda>r w'. bind (k1 r w') k2)"
  by (simp add: bind_def split: outcome.splits)

lemma trigger_core:
  assumes h: "heap w this = Some c" and v: "v \<noteq> Undefined" and nn: "mayBeNull c \<or> v \<noteq> Null"
      and nt: "triggering c = None"
      and on: "list_all (reentrant_only this) (symbolValues (notifies c))"
      and os: "list_all (reentrant_only this) (symbolValues (subscribers c))"
      and ot: "list_all (reentrant_only this) (thens c)"
      and len: "length (thens c) \<le> users c"
  shows "run (Suc (Suc (Suc (Suc n)))) (Trigger this v) w =
           bind
             ((if thens c \<noteq> [] \<and> users c = length (thens c)
               then finalisation (Suc (Suc n)) this (c\<lparr>triggering := Some v, ready := True, val := v\<rparr>)
               else Ok None)
                (w\<lparr>heap := (heap w)(this \<mapsto> c\<lparr>triggering := Some v, ready := True, val := v,
                                                  users := users c - length (thens c)\<rparr>),
                   log := log w @ trigger_log c v\<rparr>))
             (\<lambda>_. after_trigger (Suc (Suc (Suc n))) this v)"
proof -
  let ?N = "Suc (Suc (Suc n))"
  let ?c1 = "c\<lparr>triggering := Some v, ready := True, val := v\<rparr>"
  let ?w1 = "w\<lparr>heap := (heap w)(this \<mapsto> ?c1)\<rparr>"
  let ?w2 = "?w1\<lparr>log := log ?w1 @ concat (map (obs_log []) (symbolValues (notifies c)))\<rparr>"
  let ?w3 = "?w2\<lparr>log := log ?w2 @ concat (map (obs_log [AVal v]) (symbolValues (subscribers c)))\<rparr>"
  define T where "T =
    (if thens c \<noteq> [] \<and> users c = length (thens c)
     then finalisation (Suc (Suc n)) this ?c1 else Ok None)
      (w\<lparr>heap := (heap w)(this \<mapsto> c\<lparr>triggering := Some v, ready := True, val := v,
                                        users := users c - length (thens c)\<rparr>),
         log := log w @ trigger_log c v\<rparr>)"
  have not_null: "(\<not> mayBeNull c \<and> v = Null) = False"
    using nn by auto
  have t1: "triggering ?c1 \<noteq> None" "val ?c1 \<noteq> Undefined"
    using v by simp_all
  have h1: "heap ?w1 this = Some ?c1" by simp
  have n: "forEach (\<lambda>cb. run ?N (Call cb [])) (symbolValues (notifies c)) ?w1 = Ok None ?w2"
    by (rule notifiers_loop [OF h1 t1 on])
  have h2: "heap ?w2 this = Some ?c1" by simp
  have s: "forEach (\<lambda>cb w'. with_this this w' (\<lambda>c'. run ?N (Call cb [AVal (val c')]) w'))
             (symbolValues (subscribers c)) ?w2 = Ok None ?w3"
    using subscribers_loop [OF h2 t1 os] by simp
  have h3: "heap ?w3 this = Some ?c1" by simp
  have ot': "list_all (reentrant_only this) (thens ?c1)"
    using ot by simp
  have len': "length (thens ?c1) \<le> users ?c1"
    using len by simp
  have eq: "?w3\<lparr>heap := (heap ?w3)(this \<mapsto> ?c1\<lparr>users := users ?c1 - length (thens ?c1)\<rparr>),
                 log := log ?w3 @ concat (map (obs_log [AVal (val ?c1)]) (thens ?c1))\<rparr> =
            w\<lparr>heap := (heap w)(this \<mapsto> c\<lparr>triggering := Some v, ready := True, val := v,
                                               users := users c - length (thens c)\<rparr>),
               log := log w @ trigger_log c v\<rparr>"
    by (auto intro!: world.equality same_cell spook.equality simp add: trigger_log_def)
  have t: "forEach (\<lambda>cb w'. with_this this w' (\<lambda>c'.
              bind (run ?N (Call cb [AVal (val c')]) w') (\<lambda>_ w''. run ?N (Drop this) w'')))
             (thens c) ?w3 = bind T (\<lambda>_. Ok None)"
    using thens_loop [OF h3 t1 ot' len', of n] unfolding eq T_def by simp
  have "run (Suc ?N) (Trigger this v) w =
          bind T (\<lambda>_ w'. with_this this (upd this (\<lambda>c. c\<lparr>thens := [], triggering := None\<rparr>) w')
            (\<lambda>c6. if truthy (uuid c6) \<and> \<not> noCache c6 \<and>
                       cache (upd this (\<lambda>c. c\<lparr>thens := [], triggering := None\<rparr>) w') \<noteq> None
                   then run ?N (CacheChanged (case uuid c6 of Some u \<Rightarrow> u | None \<Rightarrow> []) v)
                          (upd this (\<lambda>c. c\<lparr>thens := [], triggering := None\<rparr>) w')
                   else Ok None (upd this (\<lambda>c. c\<lparr>thens := [], triggering := None\<rparr>) w')))"
    using n s t
    by (simp add: run_Suc [of ?N] Spook_trigger_def h v nt Let_def not_null upd_Some
        bind_assoc upd_upd del: not_None_eq cong: if_cong)
  then show ?thesis
    unfolding T_def after_trigger_def publish_def effective_cache_def Let_def by simp
qed


lemma passive_reentrant: "list_all passive_cb cbs \<Longrightarrow> list_all (reentrant_only this) cbs"
  by (induction cbs) (auto simp add: passive_cb_def reentrant_only_def split: callback.splits)

lemma passive_log: "list_all passive_cb cbs \<Longrightarrow> concat (map (obs_log args) cbs) = map (called args) cbs"
  by (induction cbs) (auto simp add: passive_cb_def obs_log_def called_def split: callback.splits)

lemma after_trigger_plain:
  assumes "heap w this = Some c"
  shows "after_trigger n this v w =
           publish n c v (w\<lparr>heap := (heap w)(this \<mapsto> c\<lparr>thens := [], triggering := None\<rparr>)\<rparr>)"
  using assms
  by (simp add: after_trigger_def Let_def upd_Some publish_def effective_cache_def del: not_None_eq)

lemma trigger_explicit:
  assumes h: "heap w this = Some c" and v: "v \<noteq> Undefined" and nn: "mayBeNull c \<or> v \<noteq> Null"
      and nt: "triggering c = None"
      and on: "list_all (reentrant_only this) (symbolValues (notifies c))"
      and os: "list_all (reentrant_only this) (symbolValues (subscribers c))"
      and ot: "list_all (reentrant_only this) (thens c)"
      and quiet: "thens c = [] \<or> length (thens c) < users c"
  shows "run (Suc (Suc (Suc (Suc n)))) (Trigger this v) w =
           publish (Suc (Suc (Suc n))) c v
             (w\<lparr>heap := (heap w)(this \<mapsto> c\<lparr>ready := True, val := v, thens := [],
                                               triggering := None,
                                               users := users c - length (thens c)\<rparr>),
                log := log w @ trigger_log c v\<rparr>)"
proof -
  let ?wo = "w\<lparr>heap := (heap w)(this \<mapsto> c\<lparr>triggering := Some v, ready := True, val := v,
                                              users := users c - length (thens c)\<rparr>),
                log := log w @ trigger_log c v\<rparr>"
  have len: "length (thens c) \<le> users c"
    using quiet by auto
  have no: "(thens c \<noteq> [] \<and> users c = length (thens c)) = False"
    using quiet by auto
  have hw: "heap ?wo this = Some (c\<lparr>triggering := Some v, ready := True, val := v,
                                     users := users c - length (thens c)\<rparr>)"
    by simp
  show ?thesis
    unfolding trigger_core [OF h v nn nt on os ot len, of n] no
    apply (simp add: after_trigger_plain [OF hw] publish_def effective_cache_def del: not_None_eq)
    apply (auto intro!: same_run world.equality same_cell spook.equality)
    done
qed

declare toString16.simps [simp del]

lemma hex_digit_hex: "hex_digit d \<in> hex_chars"
proof -
  have "d mod 16 < length ''0123456789abcdef''" by simp
  then have "''0123456789abcdef'' ! (d mod 16) \<in> set ''0123456789abcdef''"
    by (rule nth_mem)
  then show ?thesis by (simp only: hex_digit_def hex_chars_def)
qed

lemma toString16_hex: "set (toString16 n) \<subseteq> hex_chars"
proof (induction n rule: toString16.induct)
  case (1 n)
  show ?case
  proof (cases "n < 16")
    case True
    then show ?thesis
      by (subst toString16.simps) (simp add: hex_digit_hex)
  next
    case False
    with 1 show ?thesis
      by (subst toString16.simps) (simp add: hex_digit_hex)
  qed
qed

lemma toString16_length: "16 ^ k \<le> n \<Longrightarrow> n < 16 ^ Suc k \<Longrightarrow> length (toString16 n) = Suc k"
proof (induction k arbitrary: n)
  case 0
  then show ?case
    by (subst toString16.simps) simp
next
  case (Suc k)
  have big: "\<not> n < 16"
  proof -
    have a: "(16::nat) ^ Suc k = 16 * 16 ^ k" by simp
    have b: "(1::nat) \<le> 16 ^ k" by simp
    show ?thesis
      using Suc.prems(1) b unfolding a by linarith
  qed
  have lo: "16 ^ k \<le> n div 16"
    using Suc.prems(1) by (simp add: less_eq_div_iff_mult_less_eq mult.commute)
  have hi: "n div 16 < 16 ^ Suc k"
    using Suc.prems(2) by (simp add: div_less_iff_less_mult mult.commute)
  have "length (toString16 (n div 16)) = Suc k"
    by (rule Suc.IH [OF lo hi])
  with big show ?case
    by (subst toString16.simps) simp
qed

lemma sessionId_shape:
  assumes "0 \<le> r" and "r < 1"
  shows "length (new_sessionId r) = 8 \<and> set (new_sessionId r) \<subseteq> hex_chars"
proof -
  let ?n = "nat \<lfloor>(1 + r) * 4294967296\<rfloor>"
  have lo: "0 \<le> \<lfloor>r * 4294967296\<rfloor>"
    using assms(1) by simp
  have hi: "\<lfloor>r * 4294967296\<rfloor> < 4294967296"
    using assms(2) by (simp add: floor_less_iff)
  have "16 ^ 8 \<le> ?n" "?n < 16 ^ Suc 8"
    using lo hi by (simp_all, linarith+)
  then have len: "length (toString16 ?n) = Suc 8"
    by (rule toString16_length)
  have "set (drop 1 (toString16 ?n)) \<subseteq> set (toString16 ?n)"
    by (rule set_drop_subset)
  with toString16_hex [of ?n] have "set (drop 1 (toString16 ?n)) \<subseteq> hex_chars"
    by (rule order_trans [rotated])
  with len show ?thesis
    by (simp add: new_sessionId_def)
qed

lemma sessionId_half: "new_sessionId (1 / 2) = ''80000000''"
proof -
  have "nat \<lfloor>(1 + 1 / 2 :: real) * 4294967296\<rfloor> = 6442450944"
    by simp
  then show ?thesis
    by (simp add: new_sessionId_def toString16.simps hex_digit_def)
qed


text \<open>The two concrete latch worlds are what the constructor and \<open>tie\<close> produce.\<close>

lemma latch_world_cells:
  "heap latch_world 0 = Some fresh \<and> heap latch_world 1 = Some latch0"
  by (simp add: latch_world_def new_LatchSpook_def new_Spook_def world_of_def world0_def
      fresh_def latch0_def upd_def Let_def)

lemma latch_setup:
  "run_all (Suc (Suc (Suc (Suc (Suc (Suc 0)))))) [Tie 1 (Fn 1 [])] latch_world = Ok None latched_world"
  by (simp add: run_all_def run_Suc Spook_tie_def Spook_use_def Spook_notify_def initialise_def
      LatchSpook_initialise_def LatchSpook_poll_def call_def emit_def
      latch_world_def new_LatchSpook_def new_Spook_def world_of_def world0_def
      fresh_def latch0_def latched_world_def latch_input_def latch_used_def upd_def Let_def
      truthy_def)

text \<open>
  A latch that was used and dropped while its input was not ready keeps the symbol of
  its removed notifier in \<open>_notifyId\<close>. If the input becomes ready before the latch is
  used again, \<open>_poll\<close>, called from inside \<open>notify\<close>, sees the stale symbol and deletes
  \<open>_targetSpook\<close>, and \<open>initialise\<close> then calls \<open>unnotify\<close> on the deleted field: \<open>use\<close>
  ends in a TypeError, with the value adopted and the new notifier left on the input.
\<close>

lemma latch_reuse_throws:
  "(case run_all (Suc (Suc (Suc (Suc (Suc (Suc (Suc (Suc 0))))))))
          [Use 1, Drop 1, Trigger 0 (Val 7), Use 1] latch_world of
      Ok x w \<Rightarrow> False
    | Threw e w \<Rightarrow> e = TypeError \<and> map_option val (heap w 1) = Some (Val 7) \<and>
                   map_option notifies (heap w 0) = Some [(1, LatchPoll 1)]
    | OutOfFuel \<Rightarrow> False)"
  by (simp add: run_all_def run_Suc Spook_trigger_def Spook_changed_def Spook_use_def
      Spook_drop_def Spook_notify_def Spook_unnotify_def initialise_def finalise_def
      LatchSpook_initialise_def LatchSpook_finalise_def LatchSpook_poll_def call_def emit_def
      latch_world_def new_LatchSpook_def new_Spook_def world_of_def world0_def fresh_def
      upd_def Let_def truthy_def symbolValues_def delete_key_def equivalent_def
      JSON_stringify_def)

text \<open>The world of the inactive primary is what \<open>use\<close> and \<open>drop\<close> leave of a newly cached cell.\<close>

lemma cold_world_reached:
  "run_all (Suc (Suc (Suc (Suc (Suc (Suc 0)))))) [Use 0, Drop 0] (cached_world Map.empty) =
     Ok None cold_world"
  by (simp add: run_all_def run_Suc Spook_use_def Spook_drop_def
      SpookCache_initialise_def SpookCache_ensureActive_def SpookCache_finalise_def
      initialise_def cached_world_def cold_world_def world0_def owner_reg_def
      identified_def fresh_def new_SpookCache_def sessionId_half truthy_def upd_def upd_reg_def
      set_reg_def upd_cache_def storage_set_def value_key_def owner_key_def Let_def)

section \<open>What the stop hooks leave alone\<close>


lemma with_this_eq_Ok: "with_this a w k = Ok x w' \<Longrightarrow> \<exists>c. heap w a = Some c \<and> k c = Ok x w'"
  by (cases "heap w a") simp_all

lemma cell_le_refl [simp]: "cell_le c c"
  by (simp add: cell_le_def)


lemma cell_le_users [simp]: "cell_le (c\<lparr>users := m\<rparr>) c"
  by (simp add: cell_le_def)

lemma cell_le_unnotify [simp]: "cell_le (c\<lparr>notifies := delete_key i (notifies c)\<rparr>) c"
  by (auto simp add: cell_le_def delete_key_def)


lemma heap_le_refl [simp]: "heap_le h h"
  by (simp add: heap_le_def option.rel_refl)




lemma heap_le_None: "heap_le h' h \<Longrightarrow> h a = None \<Longrightarrow> h' a = None"
proof -
  assume 1: "heap_le h' h" and 2: "h a = None"
  from 1 have "rel_option cell_le (h' a) (h a)" by (simp add: heap_le_def)
  with 2 show ?thesis by (cases "h' a") simp_all
qed

lemma reg_le_refl [simp]: "reg_le i i"
  by (simp add: reg_le_def)

lemma regs_le_refl [simp]: "regs_le r r"
  by (simp add: regs_le_def split: option.splits)


lemma cache_le_refl [simp]: "cache_le ch ch"
  by (simp add: cache_le_def)


lemma quiet_refl [simp]: "quiet_step w w"
  by (simp add: quiet_step_def option.rel_refl)



lemma quiet_log: "filter is_call l = filter is_call (log w) \<Longrightarrow> quiet_step w (w\<lparr>log := l\<rparr>)"
  by (simp add: quiet_step_def option.rel_refl)












lemma keys_differ [simp]: "value_key u \<noteq> owner_key u'" "owner_key u' \<noteq> value_key u"
  by (simp_all add: value_key_def owner_key_def)




section \<open>The claims\<close>

text \<open>
  C1. A trigger of a cell that is not already triggering, with a value that is not
  \<open>undefined\<close> (and not \<open>null\<close> on a cell that disallows it), whose observers only
  observe and whose one-shots are covered by the user count, makes the cell ready with
  the value and runs, in this order: every readiness-notifier in registration order
  (no argument), every change-subscriber in registration order (passed the value),
  every one-shot (passed the value), each followed by a \<open>drop\<close>; the last of these drops
  takes the finalisation path when it brings the user count to zero. Only then is the
  queue emptied, the sentinel cleared and the value published to the shared cache.
  When no drop reaches zero the whole result is explicit, publication coming last.
\<close>

theorem trigger_fires_in_order:
  assumes "heap w this = Some c" and "v \<noteq> Undefined" and "mayBeNull c \<or> v \<noteq> Null"
      and "triggering c = None"
      and "list_all passive_cb (symbolValues (notifies c))"
      and "list_all passive_cb (symbolValues (subscribers c))"
      and "list_all passive_cb (thens c)"
      and "length (thens c) \<le> users c"
  shows "run (Suc (Suc (Suc (Suc n)))) (Trigger this v) w =
           bind
             ((if thens c \<noteq> [] \<and> users c = length (thens c)
               then finalisation (Suc (Suc n)) this (c\<lparr>triggering := Some v, ready := True, val := v\<rparr>)
               else Ok None)
                (w\<lparr>heap := (heap w)(this \<mapsto> c\<lparr>triggering := Some v, ready := True, val := v,
                                                  users := users c - length (thens c)\<rparr>),
                   log := log w @ map (called []) (symbolValues (notifies c)) @
                                  map (called [AVal v]) (symbolValues (subscribers c)) @
                                  map (called [AVal v]) (thens c)\<rparr>))
             (\<lambda>_. after_trigger (Suc (Suc (Suc n))) this v) \<and>
         (thens c = [] \<or> length (thens c) < users c \<longrightarrow>
            run (Suc (Suc (Suc (Suc n)))) (Trigger this v) w =
              publish (Suc (Suc (Suc n))) c v
                (w\<lparr>heap := (heap w)(this \<mapsto> c\<lparr>ready := True, val := v, thens := [],
                                                  triggering := None,
                                                  users := users c - length (thens c)\<rparr>),
                   log := log w @ map (called []) (symbolValues (notifies c)) @
                                  map (called [AVal v]) (symbolValues (subscribers c)) @
                                  map (called [AVal v]) (thens c)\<rparr>))"
proof -
  let ?l = "map (called []) (symbolValues (notifies c)) @
            map (called [AVal v]) (symbolValues (subscribers c)) @
            map (called [AVal v]) (thens c)"
  let ?wo = "w\<lparr>heap := (heap w)(this \<mapsto> c\<lparr>triggering := Some v, ready := True, val := v,
                                              users := users c - length (thens c)\<rparr>),
                log := log w @ ?l\<rparr>"
  have l: "trigger_log c v = ?l"
    using assms(5-7) by (simp add: trigger_log_def passive_log)
  have general: "run (Suc (Suc (Suc (Suc n)))) (Trigger this v) w =
           bind
             ((if thens c \<noteq> [] \<and> users c = length (thens c)
               then finalisation (Suc (Suc n)) this (c\<lparr>triggering := Some v, ready := True, val := v\<rparr>)
               else Ok None) ?wo)
             (\<lambda>_. after_trigger (Suc (Suc (Suc n))) this v)"
    using trigger_core [OF assms(1-4) passive_reentrant [OF assms(5)] passive_reentrant [OF assms(6)]
        passive_reentrant [OF assms(7)] assms(8), of n]
    unfolding l .
  have explicit: "run (Suc (Suc (Suc (Suc n)))) (Trigger this v) w =
              publish (Suc (Suc (Suc n))) c v
                (w\<lparr>heap := (heap w)(this \<mapsto> c\<lparr>ready := True, val := v, thens := [],
                                                  triggering := None,
                                                  users := users c - length (thens c)\<rparr>),
                   log := log w @ ?l\<rparr>)"
    if quiet: "thens c = [] \<or> length (thens c) < users c"
  proof -
    have no: "(thens c \<noteq> [] \<and> users c = length (thens c)) = False"
      using quiet by auto
    have h: "heap ?wo this = Some (c\<lparr>triggering := Some v, ready := True, val := v,
                                      users := users c - length (thens c)\<rparr>)"
      by simp
    show ?thesis
      unfolding general no
      apply (simp add: after_trigger_plain [OF h] publish_def effective_cache_def del: not_None_eq)
      apply (auto intro!: same_run world.equality same_cell spook.equality)
      done
  qed
  from general explicit show ?thesis by blast
qed

theorem trigger_fires_in_order_witness:
  "final_log (run (Suc (Suc (Suc (Suc 0)))) (Trigger 0 (Val 7)) (world_of observed)) =
     [Called 1 [], Called 2 [AVal (Val 7)], Called 3 [AVal (Val 7)]] \<and>
   map_option ready (final_cell 0 (run (Suc (Suc (Suc (Suc 0)))) (Trigger 0 (Val 7)) (world_of observed))) =
     Some True"
  using trigger_fires_in_order [of "world_of observed" 0 observed "Val 7" 0, THEN conjunct2]
  by (simp add: world_of_def world0_def observed_def fresh_def symbolValues_def passive_cb_def
      called_def publish_def effective_cache_def truthy_def final_log_def final_cell_def)

text \<open>
  C3. A trigger called while the same cell is triggering changes nothing: it returns
  after writing an error to the console, and the heap is as it was. When the observers
  of a cell call its trigger from inside their calls (any number of times, any values),
  the outer trigger ends in the state it would have reached without those calls: ready
  with the outer value, the same observers, the queue emptied, the sentinel cleared;
  the log has one refusal per reentrant call. A second trigger issued afterwards is
  accepted and sets its own value.
\<close>

theorem reentrant_trigger_is_ignored:
  assumes "heap w this = Some c"
  shows "(triggering c \<noteq> None \<longrightarrow>
            run (Suc n) (Trigger this x) w =
              Ok None (emit (ConsoleError
                (if x = Undefined \<and> val c = Undefined
                 then ''Trigger called with undefined value''
                 else ''Trigger cannot be called while already triggering.'')) w)) \<and>
         (triggering c = None \<and> v \<noteq> Undefined \<and> (mayBeNull c \<or> v \<noteq> Null) \<and>
          list_all (reentrant_only this) (symbolValues (notifies c)) \<and>
          list_all (reentrant_only this) (symbolValues (subscribers c)) \<and>
          list_all (reentrant_only this) (thens c) \<and>
          (thens c = [] \<or> length (thens c) < users c) \<longrightarrow>
            run (Suc (Suc (Suc (Suc n)))) (Trigger this v) w =
              publish (Suc (Suc (Suc n))) c v
                (w\<lparr>heap := (heap w)(this \<mapsto> c\<lparr>ready := True, val := v, thens := [],
                                                  triggering := None,
                                                  users := users c - length (thens c)\<rparr>),
                   log := log w @ trigger_log c v\<rparr>) \<and>
            (\<not> effective_cache c w \<and> v' \<noteq> Undefined \<and> (mayBeNull c \<or> v' \<noteq> Null) \<longrightarrow>
               run_all (Suc (Suc (Suc (Suc n)))) [Trigger this v, Trigger this v'] w =
                 Ok None
                   (w\<lparr>heap := (heap w)(this \<mapsto> c\<lparr>ready := True, val := v', thens := [],
                                                     triggering := None,
                                                     users := users c - length (thens c)\<rparr>),
                      log := log w @ trigger_log c v @ trigger_log (c\<lparr>thens := []\<rparr>) v'\<rparr>)))"
proof -
  have inside: "run (Suc n) (Trigger this x) w =
              Ok None (emit (ConsoleError
                (if x = Undefined \<and> val c = Undefined
                 then ''Trigger called with undefined value''
                 else ''Trigger cannot be called while already triggering.'')) w)"
    if "triggering c \<noteq> None"
    using assms that by (simp add: run_Suc Spook_trigger_def Let_def)
  have outer: "run (Suc (Suc (Suc (Suc n)))) (Trigger this v) w =
              publish (Suc (Suc (Suc n))) c v
                (w\<lparr>heap := (heap w)(this \<mapsto> c\<lparr>ready := True, val := v, thens := [],
                                                  triggering := None,
                                                  users := users c - length (thens c)\<rparr>),
                   log := log w @ trigger_log c v\<rparr>)"
    if "triggering c = None" "v \<noteq> Undefined" "mayBeNull c \<or> v \<noteq> Null"
       "list_all (reentrant_only this) (symbolValues (notifies c))"
       "list_all (reentrant_only this) (symbolValues (subscribers c))"
       "list_all (reentrant_only this) (thens c)"
       "thens c = [] \<or> length (thens c) < users c"
    by (rule trigger_explicit [OF assms that(2,3,1,4-7)])
  have later: "run_all (Suc (Suc (Suc (Suc n)))) [Trigger this v, Trigger this v'] w =
                 Ok None
                   (w\<lparr>heap := (heap w)(this \<mapsto> c\<lparr>ready := True, val := v', thens := [],
                                                     triggering := None,
                                                     users := users c - length (thens c)\<rparr>),
                      log := log w @ trigger_log c v @ trigger_log (c\<lparr>thens := []\<rparr>) v'\<rparr>)"
    if "triggering c = None" "v \<noteq> Undefined" "mayBeNull c \<or> v \<noteq> Null"
       "list_all (reentrant_only this) (symbolValues (notifies c))"
       "list_all (reentrant_only this) (symbolValues (subscribers c))"
       "list_all (reentrant_only this) (thens c)"
       "thens c = [] \<or> length (thens c) < users c"
       "\<not> effective_cache c w" "v' \<noteq> Undefined" "mayBeNull c \<or> v' \<noteq> Null"
  proof -
    let ?c1 = "c\<lparr>ready := True, val := v, thens := [], triggering := None,
                  users := users c - length (thens c)\<rparr>"
    let ?w1 = "w\<lparr>heap := (heap w)(this \<mapsto> ?c1), log := log w @ trigger_log c v\<rparr>"
    have first: "run (Suc (Suc (Suc (Suc n)))) (Trigger this v) w = Ok None ?w1"
      using outer [OF that(1-7)] that(8) by (simp add: publish_def)
    have h1: "heap ?w1 this = Some ?c1" by simp
    have second: "run (Suc (Suc (Suc (Suc n)))) (Trigger this v') ?w1 =
              publish (Suc (Suc (Suc n))) ?c1 v'
                (?w1\<lparr>heap := (heap ?w1)(this \<mapsto> ?c1\<lparr>ready := True, val := v', thens := [],
                                                      triggering := None,
                                                      users := users ?c1 - length (thens ?c1)\<rparr>),
                     log := log ?w1 @ trigger_log ?c1 v'\<rparr>)"
      using that by (intro trigger_explicit [OF h1]) simp_all
    have tl: "trigger_log ?c1 v' = trigger_log (c\<lparr>thens := []\<rparr>) v'"
      by (simp add: trigger_log_def)
    show ?thesis
      unfolding run_all_def using that(8)
      apply (simp add: first second publish_def tl effective_cache_def del: not_None_eq)
      apply (auto intro!: world.equality same_cell spook.equality)
      done
  qed
  from inside outer later show ?thesis by blast
qed

theorem reentrant_trigger_is_ignored_witness:
  "run (Suc 0) (Trigger 0 (Val 8)) (world_of (fresh\<lparr>triggering := Some (Val 7)\<rparr>)) =
     Ok None (emit rejected (world_of (fresh\<lparr>triggering := Some (Val 7)\<rparr>))) \<and>
   final_log (run (Suc (Suc (Suc (Suc 0)))) (Trigger 0 (Val 7)) (world_of reentrant)) =
     [Called 1 [], Called 2 [AVal (Val 7)], rejected] \<and>
   map_option val (final_cell 0 (run (Suc (Suc (Suc (Suc 0)))) (Trigger 0 (Val 7)) (world_of reentrant))) =
     Some (Val 7) \<and>
   map_option triggering (final_cell 0 (run (Suc (Suc (Suc (Suc 0)))) (Trigger 0 (Val 7)) (world_of reentrant))) =
     Some None \<and>
   map_option val (final_cell 0 (run_all (Suc (Suc (Suc (Suc 0)))) [Trigger 0 (Val 7), Trigger 0 (Val 8)]
                                    (world_of reentrant))) =
     Some (Val 8)"
  using reentrant_trigger_is_ignored [where w = "world_of (fresh\<lparr>triggering := Some (Val 7)\<rparr>)"
      and this = 0 and c = "fresh\<lparr>triggering := Some (Val 7)\<rparr>" and x = "Val 8" and n = 0, THEN conjunct1]
    reentrant_trigger_is_ignored [where w = "world_of reentrant" and this = 0 and c = reentrant
      and v = "Val 7" and n = 0 and v' = "Val 8", THEN conjunct2]
  by (simp add: world_of_def world0_def reentrant_def fresh_def symbolValues_def reentrant_only_def
      trigger_log_def obs_log_def publish_def effective_cache_def truthy_def final_log_def
      final_cell_def rejected_def)

text \<open>
  C4. \<open>drop\<close> on a cell whose user count is zero throws and leaves the world as it was.
  On a count above one it decrements and does nothing else. On a count of one it
  decrements to zero and takes the finalisation path: the hook of the cell's class (a
  user's subclass sees its \<open>finalise\<close> called), or \<open>finalise\<close> of the shared cache when
  the cell has a UUID not switched off by \<open>_noCache\<close> and a cache exists.
\<close>

theorem drop_underflow_or_decrement:
  assumes "heap w this = Some c"
  shows "(users c = 0 \<longrightarrow> run (Suc n) (Drop this) w = Threw UsageUnderflow w) \<and>
         (1 < users c \<longrightarrow>
            run (Suc n) (Drop this) w = Ok None (upd this (\<lambda>c. c\<lparr>users := users c - 1\<rparr>) w)) \<and>
         (users c = 1 \<and> \<not> effective_cache c w \<longrightarrow>
            run (Suc n) (Drop this) w = run n (Finalise this) (upd this (\<lambda>c. c\<lparr>users := 0\<rparr>) w)) \<and>
         (users c = 1 \<and> \<not> effective_cache c w \<and> klass c = User_class \<longrightarrow>
            run (Suc (Suc n)) (Drop this) w =
              Ok None (emit (HookFinalise this) (upd this (\<lambda>c. c\<lparr>users := 0\<rparr>) w))) \<and>
         (users c = 1 \<and> effective_cache c w \<longrightarrow>
            (\<exists>u. uuid c = Some u \<and>
              run (Suc n) (Drop this) w =
                run n (CacheFinalise u this) (upd this (\<lambda>c. c\<lparr>users := 0\<rparr>) w)))"
  using assms
  by (auto simp add: run_Suc Spook_drop_def upd_Some Let_def effective_cache_def finalise_def
      truthy_def split: option.splits)

theorem drop_underflow_or_decrement_witness:
  "run (Suc (Suc 0)) (Drop 0) (world_of fresh) = Threw UsageUnderflow (world_of fresh) \<and>
   final_log (run (Suc (Suc 0)) (Drop 0) (world_of (fresh\<lparr>users := 1, klass := User_class\<rparr>))) =
     [HookFinalise 0] \<and>
   map_option users (final_cell 0 (run (Suc (Suc 0)) (Drop 0) (world_of (fresh\<lparr>users := 2\<rparr>)))) =
     Some 1"
  using drop_underflow_or_decrement [of "world_of fresh" 0 fresh "Suc 0"]
        drop_underflow_or_decrement [of "world_of (fresh\<lparr>users := 1, klass := User_class\<rparr>)" 0
          "fresh\<lparr>users := 1, klass := User_class\<rparr>" 0]
        drop_underflow_or_decrement [of "world_of (fresh\<lparr>users := 2\<rparr>)" 0 "fresh\<lparr>users := 2\<rparr>" "Suc 0"]
  by (simp add: world_of_def world0_def fresh_def effective_cache_def truthy_def upd_def emit_def
      final_log_def final_cell_def)

text \<open>
  C7 (the empty list). \<open>Spook.promise([])\<close> returns a promise that is pending and stays
  so: \<open>resolve\<close> is called only from \<open>done\<close>, and with no item \<open>done\<close> is never called.
\<close>

theorem promise_of_nothing_stays_pending:
  "run (Suc n) (Promise []) w =
     Ok (Some (next_promise w))
        (w\<lparr>next_promise := next_promise w + 1,
           promises := (promises w)(next_promise w \<mapsto>
              \<lparr>finished = 0, resolved = [], settled = Pending\<rparr>)\<rparr>)"
  by (simp add: run_Suc Spook_promise_def Let_def)

text \<open>
  C10. \<open>notify(f)\<close> first calls \<open>use\<close>, then registers \<open>f\<close> under a fresh symbol, and
  then, if the cell is ready at that moment, calls \<open>f\<close> once, with no argument, before
  it returns the symbol; if the cell is not ready, \<open>f\<close> is not called. (\<open>f\<close> only
  observes.)
\<close>

theorem notify_calls_at_once_when_ready:
  assumes "run (Suc n) (Use this) w = Ok r w1"
      and "heap w1 this = Some c1"
  shows "run (Suc (Suc n)) (Notify this (Fn k [])) w =
           Ok (Some (symbols w1))
              (w1\<lparr>symbols := symbols w1 + 1,
                  heap := (heap w1)(this \<mapsto> c1\<lparr>notifies := notifies c1 @ [(symbols w1, Fn k [])]\<rparr>),
                  log := log w1 @ (if ready c1 then [Called k []] else [])\<rparr>)"
  using assms
  by (simp add: run_Suc Spook_notify_def Let_def upd_def call_def emit_def)

theorem notify_calls_at_once_when_ready_witness:
  "final_log (run (Suc (Suc (Suc 0))) (Notify 0 (Fn 5 [])) (world_of (fresh\<lparr>ready := True, val := Val 1\<rparr>))) =
     [Called 5 []] \<and>
   final_log (run (Suc (Suc (Suc 0))) (Notify 0 (Fn 5 [])) (world_of fresh)) = []"
  using notify_calls_at_once_when_ready [of "Suc 0" 0 "world_of (fresh\<lparr>ready := True, val := Val 1\<rparr>)"
          None "world_of (fresh\<lparr>ready := True, val := Val 1, users := 1\<rparr>)"
          "fresh\<lparr>ready := True, val := Val 1, users := 1\<rparr>" 5]
        notify_calls_at_once_when_ready [of "Suc 0" 0 "world_of fresh"
          None "world_of (fresh\<lparr>users := 1\<rparr>)" "fresh\<lparr>users := 1\<rparr>" 5]
  by (simp add: run_Suc Spook_use_def initialise_def world_of_def world0_def fresh_def truthy_def
      upd_def final_log_def)

text \<open>
  C9 (evaluation). On a cell of the base class, whose \<open>isDone\<close> is the inherited one,
  \<open>done(f)\<close> returns normally and leaves a subscriber registered. On a ready cell of a
  class whose \<open>isDone\<close> holds, \<open>done(f)\<close> calls \<open>f\<close> at once and fails to untie (the
  captured \<open>id\<close> is still undefined, the console gets the warning), so the next trigger
  calls \<open>f\<close> a second time.
\<close>

theorem done_on_base_returns_and_done_fires_twice:
  "returned (run (Suc (Suc (Suc (Suc 0)))) (Done 0 (Fn 5 [])) (world_of fresh)) \<and>
   map_option (\<lambda>c. map fst (subscribers c))
     (final_cell 0 (run (Suc (Suc (Suc (Suc 0)))) (Done 0 (Fn 5 [])) (world_of fresh))) = Some [0] \<and>
   final_log (run_all (Suc (Suc (Suc (Suc (Suc (Suc 0)))))) [Done 0 (Fn 5 []), Trigger 0 (Val 2)]
                (world_of done_cell)) =
     [Called 5 [AVal (Val 1)], ConsoleWarn ''untie on from old or non-existent subscriber ID'',
      Called 5 [AVal (Val 2)]]"
  by (simp add: run_all_def run_Suc Spook_done_def Spook_tie_def Spook_use_def Spook_trigger_def
      Spook_untie_def Spook_drop_def initialise_def finalise_def call_def cleanupCallback_def
      first_arg_def world_of_def world0_def fresh_def done_cell_def truthy_def upd_def emit_def
      Let_def symbolValues_def delete_key_def returned_def final_cell_def final_log_def)

text \<open>
  C8 (as stated, refuted). After a cell with UUID \<open>u\<close> has been used and triggered with the
  value 3 in a world with a newly made cache, the store has nothing under \<open>value.u\<close>
  and \<open>owner.u\<close>: the value is under \<open>$_Spooks.u\<close> and the session identifier under
  \<open>$_Spooks^u\<close>.
\<close>

theorem storage_keys_counterexample:
  "final_storage (run_all (Suc (Suc (Suc (Suc (Suc 0))))) [Use 0, Trigger 0 (Val 3)]
                    (cached_world Map.empty)) ''value.u'' = None \<and>
   final_storage (run_all (Suc (Suc (Suc (Suc (Suc 0))))) [Use 0, Trigger 0 (Val 3)]
                    (cached_world Map.empty)) ''owner.u'' = None \<and>
   final_storage (run_all (Suc (Suc (Suc (Suc (Suc 0))))) [Use 0, Trigger 0 (Val 3)]
                    (cached_world Map.empty)) ''$_Spooks.u'' = Some ''111'' \<and>
   final_storage (run_all (Suc (Suc (Suc (Suc (Suc 0))))) [Use 0, Trigger 0 (Val 3)]
                    (cached_world Map.empty)) ''$_Spooks^u'' = Some ''80000000''"
  by (simp add: run_all_def run_Suc Spook_use_def Spook_trigger_def SpookCache_initialise_def
      SpookCache_ensureActive_def SpookCache_changed_def initialise_def cached_world_def
      world0_def identified_def fresh_def new_SpookCache_def sessionId_half truthy_def upd_def
      upd_reg_def set_reg_def upd_cache_def storage_set_def value_key_def owner_key_def
      unary_def Let_def symbolValues_def final_storage_def numeral_3_eq_3)

text \<open>
  C8 (amended). For every UUID \<open>u\<close> the cache keeps the serialised last value under the
  key \<open>$_Spooks.u\<close> and the owner's session identifier under \<open>$_Spooks^u\<close>. \<open>changed\<close>
  writes the value key, with the registration's serialiser, before it mirrors the value
  into the users, and only in the instance whose session identifier is under the owner
  key. \<open>ensureActive\<close> claims an absent owner key with the instance's session identifier
  before it promotes the last user to primary. The session identifier of a cache is
  the one made at its construction: eight characters, all hexadecimal digits, for every
  random draw in [0, 1).
\<close>

theorem storage_keys_and_session_id:
  assumes "cache w = Some ch" and "regs ch u = Some item"
  shows "value_key u = ''$_Spooks.'' @ u \<and> owner_key u = ''$_Spooks^'' @ u \<and>
         (storage ch (owner_key u) = Some (sessionId ch) \<and> v \<noteq> Undefined \<and>
          reg_stringify item = Some f \<longrightarrow>
            run (Suc n) (CacheChanged u v) w =
              forEach (\<lambda>s. run n (Changed s v)) (reg_users item)
                (storage_set (''$_Spooks.'' @ u) (f v) w)) \<and>
         (storage ch (owner_key u) \<noteq> Some (sessionId ch) \<longrightarrow>
            run (Suc n) (CacheChanged u v) w = Ok None w) \<and>
         (reg_users item \<noteq> [] \<and> primary item = None \<and> \<not> deferred item \<and> \<not> owned item \<and>
          \<not> truthy (deferParentPrefix ch) \<and> \<not> truthy (storage ch (owner_key u)) \<longrightarrow>
            run (Suc n) (CacheEnsureActive u (owner_key u)) w =
              run n (Initialise (last (reg_users item)))
                (upd_reg u (\<lambda>i. i\<lparr>primary := Some (last (reg_users item)),
                                   reg_users := butlast (reg_users item), owned := True\<rparr>)
                   (storage_set (''$_Spooks^'' @ u) (sessionId ch) w))) \<and>
         (0 \<le> r \<and> r < 1 \<longrightarrow>
            sessionId (new_SpookCache store prefix r :: 'a SpookCache) = new_sessionId r \<and>
            length (new_sessionId r) = 8 \<and> set (new_sessionId r) \<subseteq> hex_chars)"
proof -
  have keys: "value_key u = ''$_Spooks.'' @ u" "owner_key u = ''$_Spooks^'' @ u"
    by (simp_all add: value_key_def owner_key_def)
  have writes: "run (Suc n) (CacheChanged u v) w =
              forEach (\<lambda>s. run n (Changed s v)) (reg_users item)
                (storage_set (''$_Spooks.'' @ u) (f v) w)"
    if "storage ch (owner_key u) = Some (sessionId ch)" "v \<noteq> Undefined" "reg_stringify item = Some f"
    using assms that by (simp add: run_Suc SpookCache_changed_def value_key_def)
  have only_owner: "run (Suc n) (CacheChanged u v) w = Ok None w"
    if "storage ch (owner_key u) \<noteq> Some (sessionId ch)"
    using assms that by (simp add: run_Suc SpookCache_changed_def)
  have claims: "run (Suc n) (CacheEnsureActive u (owner_key u)) w =
              run n (Initialise (last (reg_users item)))
                (upd_reg u (\<lambda>i. i\<lparr>primary := Some (last (reg_users item)),
                                   reg_users := butlast (reg_users item), owned := True\<rparr>)
                   (storage_set (''$_Spooks^'' @ u) (sessionId ch) w))"
    if "reg_users item \<noteq> []" "primary item = None" "\<not> deferred item" "\<not> owned item"
       "\<not> truthy (deferParentPrefix ch)" "\<not> truthy (storage ch (owner_key u))"
    using assms that
    by (simp add: run_Suc SpookCache_ensureActive_def Let_def owner_key_def)
  have sid: "sessionId (new_SpookCache store prefix r :: 'a SpookCache) = new_sessionId r \<and>
            length (new_sessionId r) = 8 \<and> set (new_sessionId r) \<subseteq> hex_chars"
    if "0 \<le> r" "r < 1"
    using sessionId_shape [OF that] by (simp add: new_SpookCache_def)
  from keys writes only_owner claims sid show ?thesis by blast
qed

theorem storage_keys_and_session_id_witness:
  "final_storage (run (Suc 0) (CacheChanged ''u'' (Val 3)) owner_world) ''$_Spooks.u'' = Some ''111'' \<and>
   length (new_sessionId (1 / 2)) = 8"
  using storage_keys_and_session_id [where w = owner_world and ch = owner_cache and item = owner_reg
          and u = "''u''" and v = "Val 3" and f = unary and n = 0 and r = "1 / 2"]
  by (simp add: owner_world_def owner_cache_def owner_reg_def world0_def new_SpookCache_def
      sessionId_half storage_set_def upd_cache_def unary_def final_storage_def owner_key_def
      numeral_3_eq_3)

text \<open>
  C5 (as stated, refuted). A cell with a cache identity that nobody uses, in a world with
  a newly made cache: after \<open>use\<close> and \<open>drop\<close> the user count is zero again, but the
  cache still holds the registration of the UUID and the owner key it claimed for it;
  and when the store holds a value for the UUID, the cell, not ready before, is ready
  with that value. And an unused latch with default 0 whose input is ready with 7: after
  \<open>use\<close> and \<open>drop\<close> the latch holds 7 and has lost its \<open>_targetSpook\<close>.
\<close>

theorem use_then_drop_counterexample:
  "map_option ready (heap (cached_world [''$_Spooks.u'' \<mapsto> ''111'']) 0) = Some False \<and>
   map_option ready (final_cell 0 (run_all (Suc (Suc (Suc (Suc (Suc (Suc 0)))))) [Use 0, Drop 0]
                       (cached_world [''$_Spooks.u'' \<mapsto> ''111'']))) = Some True \<and>
   map_option val (final_cell 0 (run_all (Suc (Suc (Suc (Suc (Suc (Suc 0)))))) [Use 0, Drop 0]
                       (cached_world [''$_Spooks.u'' \<mapsto> ''111'']))) = Some (Val 3) \<and>
   map_option users (final_cell 0 (run_all (Suc (Suc (Suc (Suc (Suc (Suc 0)))))) [Use 0, Drop 0]
                       (cached_world Map.empty))) = Some 0 \<and>
   final_registered (run_all (Suc (Suc (Suc (Suc (Suc (Suc 0)))))) [Use 0, Drop 0]
                       (cached_world Map.empty)) ''u'' \<and>
   final_storage (run_all (Suc (Suc (Suc (Suc (Suc (Suc 0)))))) [Use 0, Drop 0]
                       (cached_world Map.empty)) ''$_Spooks^u'' = Some ''80000000'' \<and>
   map_option val (heap ready_latch_world 1) = Some (Val 0) \<and>
   map_option targetSpook (heap ready_latch_world 1) = Some (Some 0) \<and>
   map_option val (final_cell 1 (run_all (Suc (Suc (Suc (Suc (Suc (Suc (Suc (Suc 0))))))))
                       [Use 1, Drop 1] ready_latch_world)) = Some (Val 7) \<and>
   map_option targetSpook (final_cell 1 (run_all (Suc (Suc (Suc (Suc (Suc (Suc (Suc (Suc 0))))))))
                       [Use 1, Drop 1] ready_latch_world)) = Some None \<and>
   map_option users (final_cell 1 (run_all (Suc (Suc (Suc (Suc (Suc (Suc (Suc (Suc 0))))))))
                       [Use 1, Drop 1] ready_latch_world)) = Some 0"
  by (simp add: run_all_def run_Suc Spook_use_def Spook_drop_def Spook_changed_def
      Spook_trigger_def Spook_notify_def Spook_unnotify_def
      SpookCache_initialise_def SpookCache_ensureActive_def
      SpookCache_changed_def SpookCache_finalise_def initialise_def finalise_def
      LatchSpook_initialise_def LatchSpook_finalise_def LatchSpook_poll_def call_def
      cached_world_def world0_def world_of_def ready_latch_world_def new_LatchSpook_def
      new_Spook_def delete_key_def equivalent_def JSON_stringify_def
      identified_def fresh_def new_SpookCache_def sessionId_half truthy_def upd_def upd_reg_def
      set_reg_def upd_cache_def storage_set_def value_key_def owner_key_def of_unary_def Let_def
      symbolValues_def final_storage_def final_registered_def final_cell_def)

text \<open>
  C5 (amended). \<open>use\<close> followed at once by \<open>drop\<close> leaves the whole world as it was when
  the cell is already in use. On an unused cell the pair is exactly the start hook
  followed by the stop hook, with the user count at zero again: \<open>initialise\<close> then
  \<open>finalise\<close> of the cell's class, or \<open>Spook.cache.initialise\<close> then
  \<open>Spook.cache.finalise\<close> for a cell with an effective cache identity (the stop hook is
  left out if the start hook itself took the cell into use). So the pair leaves the
  whole world as it was on an unused cell of the base class without effective cache
  identity, whose hooks are empty, and on an unused cell that is the registered primary
  of its UUID and not marked as owned (if it is marked as owned, an error is logged and
  the mark removed).
\<close>

theorem use_then_drop_restores:
  assumes "heap w this = Some c"
  shows "(0 < users c \<longrightarrow> run_all (Suc n) [Use this, Drop this] w = Ok None w) \<and>
         (users c = 0 \<longrightarrow>
            run_all (Suc (Suc n)) [Use this, Drop this] w =
              bind (initialisation (Suc n) this c w) (\<lambda>_ w1.
                bind (with_this this w1 (\<lambda>c1.
                        if users c1 = 0 then finalisation (Suc n) this c1 w1 else Ok None w1))
                  (\<lambda>_. Ok None))) \<and>
         (users c = 0 \<and> \<not> effective_cache c w \<and> klass c = Spook_class \<longrightarrow>
            run_all (Suc (Suc n)) [Use this, Drop this] w = Ok None w) \<and>
         (users c = 0 \<and> effective_cache c w \<and> uuid c = Some u \<and> cache w = Some ch \<and>
          regs ch u = Some item \<and> primary item = Some this \<longrightarrow>
            run_all (Suc (Suc n)) [Use this, Drop this] w =
              Ok None
                (if owned item
                 then upd_reg u (\<lambda>i. i\<lparr>owned := False\<rparr>)
                        (emit (ConsoleError ''SpookCache.initialise: initialise called on already-active Spook.'') w)
                 else w))"
proof -
  have same: "w\<lparr>heap := (heap w)(this \<mapsto> c)\<rparr> = w"
    using assms by (simp add: fun_upd_idem)
  have unused: "c\<lparr>users := 0\<rparr> = c" if "users c = 0"
    using that by (intro spook.equality) simp_all
  have in_use: "run_all (Suc n) [Use this, Drop this] w = Ok None w" if "0 < users c"
    using assms that
    by (simp add: run_all_def run_Suc Spook_use_def Spook_drop_def upd_def Let_def same)
  have dropped: "run (Suc (Suc n)) (Drop this) (upd this (\<lambda>c. c\<lparr>users := users c + 1\<rparr>) w1) =
      with_this this w1 (\<lambda>c1.
        if users c1 = 0 then finalisation (Suc n) this c1 w1 else Ok None w1)" for w1
  proof (cases "heap w1 this")
    case None
    then show ?thesis
      by (simp add: run_Suc [of "Suc n"] Spook_drop_def upd_def)
  next
    case (Some c1)
    have idem: "w1\<lparr>heap := (heap w1)(this \<mapsto> c1)\<rparr> = w1"
      using Some by (simp add: fun_upd_idem)
    show ?thesis
      using Some
      by (simp add: run_Suc [of "Suc n"] Spook_drop_def upd_def Let_def finalisation_def
          effective_cache_def idem del: not_None_eq)
  qed
  have hooks: "run_all (Suc (Suc n)) [Use this, Drop this] w =
      bind (initialisation (Suc n) this c w) (\<lambda>_ w1.
        bind (with_this this w1 (\<lambda>c1.
                if users c1 = 0 then finalisation (Suc n) this c1 w1 else Ok None w1))
          (\<lambda>_. Ok None))"
    if "users c = 0"
  proof -
    have "run_all (Suc (Suc n)) [Use this, Drop this] w =
        bind (initialisation (Suc n) this c w) (\<lambda>_ w1.
          bind (run (Suc (Suc n)) (Drop this) (upd this (\<lambda>c. c\<lparr>users := users c + 1\<rparr>) w1))
            (\<lambda>_. Ok None))"
      using assms that
      by (simp add: run_all_def run_Suc [of "Suc n"] Spook_use_def initialisation_def
          effective_cache_def bind_assoc del: not_None_eq)
    then show ?thesis
      by (simp only: dropped)
  qed
  have plain: "run_all (Suc (Suc n)) [Use this, Drop this] w = Ok None w"
    if "users c = 0" "\<not> effective_cache c w" "klass c = Spook_class"
    using assms that
    by (auto simp add: run_all_def run_Suc Spook_use_def Spook_drop_def initialise_def
        finalise_def upd_def Let_def effective_cache_def same unused)
  have cold: "run_all (Suc (Suc n)) [Use this, Drop this] w =
      Ok None
        (if owned item
         then upd_reg u (\<lambda>i. i\<lparr>owned := False\<rparr>)
                (emit (ConsoleError ''SpookCache.initialise: initialise called on already-active Spook.'') w)
         else w)"
    if "users c = 0" "effective_cache c w" "uuid c = Some u" "cache w = Some ch"
       "regs ch u = Some item" "primary item = Some this"
  proof (cases "owned item")
    case True
    show ?thesis
      using assms that True
      by (auto simp add: run_all_def run_Suc Spook_use_def Spook_drop_def SpookCache_initialise_def
          SpookCache_finalise_def upd_def upd_reg_def upd_cache_def set_reg_def Let_def emit_def
          effective_cache_def unused fun_upd_idem
          intro!: world.equality SpookCache.equality reg.equality)
  next
    case False
    have item: "item\<lparr>owned := False\<rparr> = item"
      using False by (intro reg.equality) simp_all
    have regs: "(regs ch)(u \<mapsto> item) = regs ch"
      using that(5) by (simp add: fun_upd_idem)
    have ch: "ch\<lparr>regs := regs ch\<rparr> = ch"
      by simp
    have w: "w\<lparr>cache := Some ch\<rparr> = w"
      using that(4) by (intro world.equality) simp_all
    show ?thesis
      using assms that False
      by (simp add: run_all_def run_Suc Spook_use_def Spook_drop_def SpookCache_initialise_def
          SpookCache_finalise_def upd_def upd_reg_def upd_cache_def set_reg_def Let_def
          effective_cache_def same unused item regs ch w)
  qed
  from in_use hooks plain cold show ?thesis by blast
qed

theorem use_then_drop_restores_witness:
  "run_all (Suc (Suc 0)) [Use 0, Drop 0] (world_of observed) = Ok None (world_of observed) \<and>
   run_all (Suc (Suc 0)) [Use 0, Drop 0] (world_of fresh) = Ok None (world_of fresh) \<and>
   run_all (Suc (Suc 0)) [Use 0, Drop 0] cold_world = Ok None cold_world"
  using use_then_drop_restores [where w = "world_of observed" and this = 0 and c = observed
          and n = "Suc 0", THEN conjunct1]
        use_then_drop_restores [where w = "world_of fresh" and this = 0 and c = fresh and n = 0,
          THEN conjunct2, THEN conjunct2, THEN conjunct1]
        use_then_drop_restores [where w = cold_world and this = 0 and c = identified and n = 0
          and u = "''u''" and item = "owner_reg\<lparr>owned := False\<rparr>"
          and ch = "(new_SpookCache [''$_Spooks^u'' \<mapsto> ''80000000''] None (1 / 2))
                      \<lparr>regs := [''u'' \<mapsto> owner_reg\<lparr>owned := False\<rparr>]\<rparr>",
          THEN conjunct2, THEN conjunct2, THEN conjunct2]
  by (simp add: world_of_def world0_def observed_def fresh_def effective_cache_def truthy_def
      cold_world_def identified_def owner_reg_def new_SpookCache_def)







end
